theory Spec2Isabelle
  imports Complex_Main "HOL-Library.Word"
begin

section \<open>JavaScript values used by the handlers\<close>

text \<open>
  A JavaScript string is a sequence of UTF-16 code units. Identifiers (user, plan, row
  ids), e-mail addresses and tokens are opaque to every handler modelled here and are
  kept as \<open>string\<close>; the dream description, whose letters are counted, is kept as the
  code-unit sequence the engine holds.
\<close>

type_synonym jsstring = "16 word list"

type_synonym time = int \<comment> \<open>a \<open>Date\<close>: milliseconds since the epoch\<close>

definition isLeadingSurrogate :: "16 word \<Rightarrow> bool" where
  "isLeadingSurrogate u = (0xD800 \<le> u \<and> u \<le> 0xDBFF)"

definition isTrailingSurrogate :: "16 word \<Rightarrow> bool" where
  "isTrailingSurrogate u = (0xDC00 \<le> u \<and> u \<le> 0xDFFF)"

text \<open>
  \<open>Array.from(content)\<close> on a string walks the string iterator: at each position a
  leading surrogate directly followed by a trailing surrogate is taken as one element of
  two code units, anything else (a lone surrogate included) as one element of one unit.
\<close>

fun array_from :: "jsstring \<Rightarrow> jsstring list" where
  "array_from [] = []"
| "array_from [u] = [[u]]"
| "array_from (u # v # rest) =
     (if isLeadingSurrogate u \<and> isTrailingSurrogate v
      then [u, v] # array_from rest
      else [u] # array_from (v # rest))"

text \<open>src/routes/dreams.ts, lines 26-29, \<open>countContentLetters\<close>: \<open>if (!content) return 0; return Array.from(content).length\<close>.\<close>

definition countContentLetters :: "jsstring \<Rightarrow> nat" where
  "countContentLetters content = (if content = [] then 0 else length (array_from content))"

text \<open>
  The numbers a request body can carry: a finite double (held as the rational it
  denotes; \<open>Math.ceil\<close> of a double is exact), \<open>NaN\<close>, and the two infinities
  (\<open>JSON.parse\<close> reads \<open>1e999\<close> as \<open>Infinity\<close>).
\<close>

datatype jsnum = Fin rat | NaN | PosInf | NegInf

text \<open>The values of a JSON body field; arrays and nested objects are left out.\<close>

datatype jsvalue = Undefined | Null | Bool bool | Num jsnum | Str jsstring

fun truthy :: "jsvalue \<Rightarrow> bool" where
  "truthy Undefined = False"
| "truthy Null = False"
| "truthy (Bool b) = b"
| "truthy (Num (Fin x)) = (x \<noteq> 0)"
| "truthy (Num NaN) = False"
| "truthy (Num PosInf) = True"
| "truthy (Num NegInf) = True"
| "truthy (Str s) = (s \<noteq> [])"

text \<open>
  \<open>Number(v)\<close>. The conversion of a string (ECMAScript's StringToNumber) is a built-in
  of the engine and is taken as the parameter \<open>s2n\<close>.
\<close>

fun to_number :: "(jsstring \<Rightarrow> jsnum) \<Rightarrow> jsvalue \<Rightarrow> jsnum" where
  "to_number s2n Undefined = NaN"
| "to_number s2n Null = Fin 0"
| "to_number s2n (Bool b) = Fin (if b then 1 else 0)"
| "to_number s2n (Num n) = n"
| "to_number s2n (Str s) = s2n s"

fun math_ceil :: "jsnum \<Rightarrow> jsnum" where
  "math_ceil (Fin x) = Fin (of_int \<lceil>x\<rceil>)"
| "math_ceil NaN = NaN"
| "math_ceil PosInf = PosInf"
| "math_ceil NegInf = NegInf"

text \<open>\<open>n > 0\<close> on a number.\<close>

fun gt_zero :: "jsnum \<Rightarrow> bool" where
  "gt_zero (Fin x) = (0 < x)"
| "gt_zero NaN = False"
| "gt_zero PosInf = True"
| "gt_zero NegInf = False"

text \<open>\<open>used + n > quota\<close> for integers \<open>used\<close> and \<open>quota\<close> read from the database.\<close>

fun sum_exceeds :: "int \<Rightarrow> jsnum \<Rightarrow> int \<Rightarrow> bool" where
  "sum_exceeds used (Fin x) quota = (of_int quota < of_int used + x)"
| "sum_exceeds used NaN quota = False"
| "sum_exceeds used PosInf quota = True"
| "sum_exceeds used NegInf quota = False"

text \<open>
  The amount an \<open>{ increment: n }\<close> on an integer column adds; the ORM rejects a value
  that is not an integer.
\<close>

fun int_increment :: "jsnum \<Rightarrow> int option" where
  "int_increment (Fin x) = (if of_int \<lfloor>x\<rfloor> = x then Some \<lfloor>x\<rfloor> else None)"
| "int_increment NaN = None"
| "int_increment PosInf = None"
| "int_increment NegInf = None"

text \<open>src/routes/dreams.ts, line 152: \<open>audioMinutes ? Math.ceil(Number(audioMinutes)) : 0\<close>.\<close>

definition audioMinutesRequested :: "(jsstring \<Rightarrow> jsnum) \<Rightarrow> jsvalue \<Rightarrow> jsnum" where
  "audioMinutesRequested s2n audioMinutes =
     (if truthy audioMinutes then math_ceil (to_number s2n audioMinutes) else Fin 0)"

text \<open>
  Dates. A valid \<open>Date\<close> holds a time value, the milliseconds since the epoch in UTC,
  of magnitude at most 8.64e15; beyond it the date is invalid (\<open>TimeClip\<close>). The
  calendar fields of a date are read and set in the server's local time, which the
  engine derives from the time zone it runs in: \<open>utc_offset_at z t\<close> is the offset of
  local time from UTC, in milliseconds, at the UTC time value \<open>t\<close>, and
  \<open>local_offset_at z l\<close> the offset at the local time value \<open>l\<close> (ECMAScript's
  \<open>LocalTZA(t, true)\<close> and \<open>LocalTZA(l, false)\<close>). The zone is an input of every
  handler that sets a date field.
\<close>

record zone =
  utc_offset_at :: "time \<Rightarrow> int"
  local_offset_at :: "time \<Rightarrow> int"

definition time_clip :: "int \<Rightarrow> time option" where
  "time_clip t = (if \<bar>t\<bar> \<le> 8640000000000000 then Some t else None)"

text \<open>
  \<open>d.setDate(d.getDate() + n)\<close> on a valid date \<open>d\<close> of time value \<open>t\<close> and an integer
  \<open>n\<close>: the date is taken to local time, the day of the month is moved by \<open>n\<close> with the
  time within the day kept (\<open>MakeDay\<close> carries a day of the month outside the month
  over, so the local time value moves by \<open>n\<close> days of 86400000 ms), and the result is
  taken back to UTC with the offset in force at the new local time. The value is
  \<open>None\<close> when the result is an invalid date.
\<close>

definition addDays :: "zone \<Rightarrow> time \<Rightarrow> int \<Rightarrow> time option" where
  "addDays z t n =
     (let local = t + utc_offset_at z t;
          moved = local + n * 86400000
      in time_clip (moved - local_offset_at z moved))"

section \<open>The relational schema\<close>


datatype role = Dreamer | Interpreter | Admin | SuperAdmin

record user =
  u_id :: string
  u_email :: string
  u_password :: string

record profile =
  p_id :: string
  p_email :: string
  p_fullName :: string
  p_role :: role
  p_currentPlanId :: "string option"

record plan =
  pl_id :: string
  pl_price :: rat
  pl_durationDays :: int
  pl_maxDreams :: "int option"
  pl_letterQuota :: "int option"
  pl_audioMinutesQuota :: "int option"
  pl_isActive :: bool
  pl_isTrial :: bool
  pl_trialDurationDays :: "int option"
  pl_createdAt :: time

record userPlan =
  up_id :: string
  up_userId :: string
  up_planId :: string
  up_startedAt :: time
  up_expiresAt :: "time option"
  up_isActive :: bool
  up_lettersUsed :: int
  up_audioMinutesUsed :: int

datatype dream_status = New | PendingInquiry | PendingInterpretation | Interpreted | Returned

record dream =
  d_id :: string
  d_dreamerId :: string
  d_interpreterId :: "string option"
  d_title :: jsstring
  d_content :: jsstring
  d_description :: jsstring
  d_dreamDate :: "time option"
  d_mood :: "jsstring option"
  d_status :: dream_status
  d_createdAt :: time

datatype payment_status = Pending | Succeeded | Failed | Refunded | Cancelled

record payment =
  pay_id :: string
  pay_userId :: string
  pay_planId :: "string option"
  pay_amount :: rat
  pay_status :: payment_status
  pay_provider :: "string option"
  pay_reference :: "string option"
  pay_paidAt :: "time option"

datatype message_type = TextMessage | AudioMessage

record message =
  m_id :: string
  m_dreamId :: string
  m_senderId :: string
  m_content :: jsstring
  m_messageType :: message_type
  m_audioUrl :: "string option"
  m_createdAt :: time

record comment =
  c_id :: string
  c_dreamId :: string
  c_userId :: string
  c_content :: jsstring
  c_createdAt :: time

record db =
  users :: "user list"
  profiles :: "profile list"
  plans :: "plan list"
  userPlans :: "userPlan list"
  dreams :: "dream list"
  payments :: "payment list"
  messages :: "message list"
  comments :: "comment list"

text \<open>
  What a handler sends: \<open>res.status(n).json(body)\<close> with a success body, or
  \<open>res.status(n).json({error, code?})\<close>. The human-readable \<open>error\<close> text is left
  out; the status and the machine-readable \<open>code\<close> are kept.
\<close>

datatype 'a response = Json nat 'a | ErrorJson nat "string option"

text \<open>What a statement inside a transaction or a handler can throw.\<close>

datatype thrown = PrismaError | TypeError

definition findProfile :: "db \<Rightarrow> string \<Rightarrow> profile option" where
  "findProfile d uid = find (\<lambda>p. p_id p = uid) (profiles d)"

definition findPlan :: "db \<Rightarrow> string \<Rightarrow> plan option" where
  "findPlan d pid = find (\<lambda>p. pl_id p = pid) (plans d)"

definition findDream :: "db \<Rightarrow> string \<Rightarrow> dream option" where
  "findDream d i = find (\<lambda>x. d_id x = i) (dreams d)"

section \<open>Dream creation and the quota ledger (src/routes/dreams.ts)\<close>

text \<open>
  \<open>getActiveSubscription\<close>: the rows of the user with \<open>isActive\<close> and
  (\<open>expiresAt\<close> null or later than now), ordered by \<open>startedAt\<close> descending, first
  row, with its plan joined. \<open>first_desc key rows\<close> is \<open>findFirst\<close> with
  \<open>orderBy: {key: 'desc'}\<close>; SQL leaves the order among equal keys open, and the model
  takes the earliest stored of them.
\<close>

definition qualifying :: "time \<Rightarrow> string \<Rightarrow> userPlan \<Rightarrow> bool" where
  "qualifying now userId r =
     (up_userId r = userId \<and> up_isActive r \<and>
      (case up_expiresAt r of None \<Rightarrow> True | Some e \<Rightarrow> now < e))"

fun first_desc :: "('a \<Rightarrow> int) \<Rightarrow> 'a list \<Rightarrow> 'a option" where
  "first_desc key [] = None"
| "first_desc key (r # rs) =
     (case first_desc key rs of
        None \<Rightarrow> Some r
      | Some b \<Rightarrow> if key r < key b then Some b else Some r)"

definition getActiveSubscription :: "db \<Rightarrow> time \<Rightarrow> string \<Rightarrow> (userPlan \<times> plan option) option" where
  "getActiveSubscription d now userId =
     (case first_desc up_startedAt (filter (qualifying now userId) (userPlans d)) of
        None \<Rightarrow> None
      | Some s \<Rightarrow> Some (s, findPlan d (up_planId s)))"

text \<open>The body of \<open>POST /dreams\<close>; an absent or non-text field is \<open>None\<close>.\<close>

datatype jsdate = ValidDate time | InvalidDate

record dream_request =
  rq_title :: "jsstring option"
  rq_description :: "jsstring option"
  rq_dream_date :: "jsdate option"
  rq_mood :: "jsstring option"
  rq_audioMinutes :: jsvalue

definition present :: "jsstring option \<Rightarrow> bool" where
  "present s = (case s of None \<Rightarrow> False | Some t \<Rightarrow> t \<noteq> [])"

text \<open>
  The \<open>prisma.$transaction\<close> of the handler (lines 212-250): \<open>tx.dream.create\<close>, then
  the usage update on \<open>subscription.id\<close>. Anything thrown inside rolls the whole
  transaction back, so the result is either the thrown value or the dream with the
  database after both writes. \<open>newId\<close> is the id the ORM generates for the row.
  The create fails on a duplicate primary key, on a dreamer without a profile (foreign
  key) and on an invalid date; reading \<open>subscription.id\<close> throws when no subscription
  was loaded; the update fails when the increment is not an integer or the row is gone.
\<close>

definition bump_usage :: "string \<Rightarrow> int \<Rightarrow> int \<Rightarrow> userPlan \<Rightarrow> userPlan" where
  "bump_usage sid letters audio r =
     (if up_id r = sid
      then r\<lparr>up_lettersUsed := up_lettersUsed r + letters,
             up_audioMinutesUsed := up_audioMinutesUsed r + audio\<rparr>
      else r)"

definition create_dream_tx ::
  "db \<Rightarrow> time \<Rightarrow> string \<Rightarrow> string \<Rightarrow> jsstring \<Rightarrow> jsstring \<Rightarrow> dream_request \<Rightarrow>
   (userPlan \<times> plan option) option \<Rightarrow> nat \<Rightarrow> jsnum \<Rightarrow> thrown + (dream \<times> db)" where
  "create_dream_tx d now newId userId title description rq subscription letterCount audioReq =
     (if findProfile d userId = None \<or> rq_dream_date rq = Some InvalidDate
         \<or> findDream d newId \<noteq> None
      then Inl PrismaError
      else
        let createdDream =
              \<lparr>d_id = newId, d_dreamerId = userId, d_interpreterId = None,
               d_title = title, d_content = description, d_description = description,
               d_dreamDate = (case rq_dream_date rq of Some (ValidDate t) \<Rightarrow> Some t | _ \<Rightarrow> None),
               d_mood = rq_mood rq, d_status = New, d_createdAt = now\<rparr>;
            d1 = d\<lparr>dreams := dreams d @ [createdDream]\<rparr>
        in (case subscription of
              None \<Rightarrow> Inl TypeError
            | Some (sub, _) \<Rightarrow>
                (case (if gt_zero audioReq then int_increment audioReq else Some 0) of
                   None \<Rightarrow> Inl PrismaError
                 | Some audio \<Rightarrow>
                     if find (\<lambda>r. up_id r = up_id sub) (userPlans d1) = None
                     then Inl PrismaError
                     else Inr (createdDream,
                               d1\<lparr>userPlans :=
                                     map (bump_usage (up_id sub) (int letterCount) audio)
                                         (userPlans d1)\<rparr>))))"

text \<open>
  \<open>router.post('/', requireAuth, ...)\<close>, after the middleware: \<open>userId\<close> is
  \<open>req.user.userId\<close>. The result is the response and the database afterwards.
\<close>

definition post_dreams ::
  "(jsstring \<Rightarrow> jsnum) \<Rightarrow> db \<Rightarrow> time \<Rightarrow> string \<Rightarrow> string \<Rightarrow> dream_request \<Rightarrow>
   dream response \<times> db" where
  "post_dreams s2n d now newId userId rq =
     (if \<not> (present (rq_title rq) \<and> present (rq_description rq))
      then (ErrorJson 400 None, d)
      else
        let title = the (rq_title rq); description = the (rq_description rq) in
        (case findProfile d userId of
           None \<Rightarrow> (ErrorJson 404 None, d)
         | Some prof \<Rightarrow>
             let isAdmin = (p_role prof = Admin \<or> p_role prof = SuperAdmin);
                 letterCount = countContentLetters description;
                 audioReq = audioMinutesRequested s2n (rq_audioMinutes rq);
                 subscription = (if isAdmin then None else getActiveSubscription d now userId);
                 denial =
                   (if isAdmin then None
                    else
                      (case subscription of
                         None \<Rightarrow> Some (ErrorJson 402 (Some ''NO_ACTIVE_SUBSCRIPTION''))
                       | Some (sub, None) \<Rightarrow> Some (ErrorJson 402 (Some ''NO_ACTIVE_SUBSCRIPTION''))
                       | Some (sub, Some pl) \<Rightarrow>
                           if (case pl_letterQuota pl of
                                 None \<Rightarrow> False
                               | Some q \<Rightarrow> q < up_lettersUsed sub + int letterCount)
                           then Some (ErrorJson 403 (Some ''QUOTA_EXCEEDED''))
                           else if gt_zero audioReq \<and>
                                   (case pl_audioMinutesQuota pl of
                                      None \<Rightarrow> False
                                    | Some q \<Rightarrow> sum_exceeds (up_audioMinutesUsed sub) audioReq q)
                           then Some (ErrorJson 403 (Some ''AUDIO_QUOTA_EXCEEDED''))
                           else if (case pl_maxDreams pl of
                                      None \<Rightarrow> False
                                    | Some m \<Rightarrow>
                                        m \<le> int (length (filter
                                               (\<lambda>x. d_dreamerId x = userId \<and>
                                                    up_startedAt sub \<le> d_createdAt x)
                                               (dreams d))))
                           then Some (ErrorJson 403 (Some ''MAX_DREAMS_REACHED''))
                           else None))
             in (case denial of
                   Some r \<Rightarrow> (r, d)
                 | None \<Rightarrow>
                     (case create_dream_tx d now newId userId title description rq
                             subscription letterCount audioReq of
                        Inl _ \<Rightarrow> (ErrorJson 500 None, d)
                      | Inr (createdDream, d') \<Rightarrow> (Json 201 createdDream, d')))))"

section \<open>Messages on a dream (routes/messages, unnamed/part_003) and comments (routes/comments, unnamed/part_001)\<close>

text \<open>Truthiness of an optional string: neither absent (or null) nor empty.\<close>

definition assigned :: "string option \<Rightarrow> bool" where
  "assigned i = (case i of None \<Rightarrow> False | Some s \<Rightarrow> s \<noteq> [])"

text \<open>
  \<open>router.get('/', requireAuth, ...)\<close> of the messages router, after the middleware;
  \<open>dreamId\<close> is \<open>req.query.dream_id\<close>.
\<close>

definition get_messages :: "db \<Rightarrow> string \<Rightarrow> string option \<Rightarrow> message list response" where
  "get_messages d userId dreamId =
     (if \<not> assigned dreamId then ErrorJson 400 None
      else
        (case findDream d (the dreamId) of
           None \<Rightarrow> ErrorJson 404 None
         | Some dream \<Rightarrow>
             let role = map_option p_role (findProfile d userId);
                 hasAccess = (d_dreamerId dream = userId \<or> d_interpreterId dream = Some userId \<or>
                              role = Some Admin \<or> role = Some SuperAdmin);
                 isSuperAdmin = (role = Some SuperAdmin)
             in if \<not> hasAccess then ErrorJson 403 None
                else if \<not> assigned (d_interpreterId dream) \<and> \<not> isSuperAdmin
                then ErrorJson 403 None
                else Json 200 (sort_key m_createdAt
                                 (filter (\<lambda>m. m_dreamId m = the dreamId) (messages d)))))"

record message_request =
  mr_dream_id :: "string option"
  mr_content :: "jsstring option"
  mr_audio :: "string option"

text \<open>The text stored for a message without content: \<open>'[\<dots>]'\<close>, an Arabic label in brackets.\<close>

definition voice_message_label :: jsstring where
  "voice_message_label =
     [0x5B, 0x631, 0x633, 0x627, 0x644, 0x629, 0x20, 0x635, 0x648, 0x62A, 0x64A, 0x629, 0x5D]"

text \<open>
  \<open>router.post('/', requireAuth, ...)\<close> of the messages router. \<open>stored\<close> is the
  outcome of lines 111-127 for a body whose audio starts with \<open>data:audio\<close>: the URL of
  the written file, nothing when the data URL does not match, or what \<open>writeFile\<close>
  throws. The create fails for a sender without a profile and on a duplicate id.
\<close>

definition post_messages ::
  "db \<Rightarrow> time \<Rightarrow> string \<Rightarrow> thrown + string option \<Rightarrow> string \<Rightarrow> message_request \<Rightarrow>
   message response \<times> db" where
  "post_messages d now newId stored userId rq =
     (if \<not> assigned (mr_dream_id rq) then (ErrorJson 400 None, d)
      else if \<not> present (mr_content rq) \<and> \<not> assigned (mr_audio rq) then (ErrorJson 400 None, d)
      else
        (case findDream d (the (mr_dream_id rq)) of
           None \<Rightarrow> (ErrorJson 404 None, d)
         | Some dream \<Rightarrow>
             if \<not> assigned (d_interpreterId dream)
             then (ErrorJson 403 (Some ''NO_INTERPRETER_ASSIGNED''), d)
             else if d_dreamerId dream \<noteq> userId \<and> d_interpreterId dream \<noteq> Some userId
             then (ErrorJson 403 None, d)
             else
               (case (if assigned (mr_audio rq) \<and> take 10 (the (mr_audio rq)) = ''data:audio''
                      then stored else Inr None) of
                  Inl _ \<Rightarrow> (ErrorJson 500 None, d)
                | Inr audioUrl \<Rightarrow>
                    if findProfile d userId = None \<or>
                       find (\<lambda>m. m_id m = newId) (messages d) \<noteq> None
                    then (ErrorJson 500 None, d)
                    else
                      let created =
                            \<lparr>m_id = newId, m_dreamId = the (mr_dream_id rq), m_senderId = userId,
                             m_content = (if present (mr_content rq) then the (mr_content rq)
                                          else voice_message_label),
                             m_messageType = (if assigned audioUrl then AudioMessage
                                              else TextMessage),
                             m_audioUrl = audioUrl, m_createdAt = now\<rparr>
                      in (Json 201 created, d\<lparr>messages := messages d @ [created]\<rparr>))))"

text \<open>\<open>router.get('/', ...)\<close> of the comments router: the handler alone, no middleware.\<close>

definition get_comments :: "db \<Rightarrow> string option \<Rightarrow> comment list response" where
  "get_comments d dreamId =
     (if \<not> assigned dreamId then ErrorJson 400 None
      else Json 200 (sort_key (\<lambda>c. - c_createdAt c)
                       (filter (\<lambda>c. c_dreamId c = the dreamId) (comments d))))"

section \<open>Token validation (middleware/auth, unnamed/part_000) and the content routes\<close>

record jwt_payload =
  jwt_userId :: string
  jwt_email :: string
  jwt_role :: string

record auth_request =
  hdr_authorization :: "string option"
  cookie_auth_token :: "string option"

text \<open>
  \<open>String.prototype.trim\<close> on a header value, whose characters are single bytes: the
  white space and line terminators below U+0100 are tab, LF, VT, FF, CR, space and
  no-break space.
\<close>

definition js_space :: "char \<Rightarrow> bool" where
  "js_space c = (of_char c \<in> {9, 10, 11, 12, 13, 32, 160 :: nat})"

definition trim :: "string \<Rightarrow> string" where
  "trim s = rev (dropWhile js_space (rev (dropWhile js_space s)))"

text \<open>
  \<open>requireAuth\<close>: the bearer token of the Authorization header, else the
  \<open>auth_token\<close> cookie; 401 without a token or when \<open>verifyToken\<close> returns null, and
  otherwise \<open>next()\<close> with \<open>req.user\<close> set. \<open>verifyToken\<close> wraps the JWT library and
  is the parameter \<open>verify\<close>. Since the header starts with \<open>'Bearer '\<close>, replacing
  the first occurrence of it by \<open>''\<close> drops the first seven characters.
\<close>

definition requireAuth ::
  "(string \<Rightarrow> jwt_payload option) \<Rightarrow> auth_request \<Rightarrow> 'a response + jwt_payload" where
  "requireAuth verify req =
     (let authHeader = hdr_authorization req;
          cookieToken = cookie_auth_token req;
          token = (if assigned authHeader \<and> take 7 (the authHeader) = ''Bearer ''
                   then Some (trim (drop 7 (the authHeader)))
                   else if assigned cookieToken then cookieToken
                   else None)
      in if \<not> assigned token then Inl (ErrorJson 401 None)
         else (case verify (the token) of
                 None \<Rightarrow> Inl (ErrorJson 401 None)
               | Some payload \<Rightarrow> Inr payload))"

text \<open>
  The routes of the five content routers, as registered with \<open>router.get/post/patch/delete\<close>,
  and whether \<open>requireAuth\<close> stands before the handler in the registration.
\<close>

datatype endpoint =
    Dreams_GET_root | Dreams_POST_root | Dreams_POST_audio | Dreams_GET_stats
  | Dreams_GET_id | Dreams_PATCH_id | Dreams_DELETE_id
  | Messages_GET_root | Messages_POST_root | Messages_DELETE_id
  | Comments_GET_root | Comments_POST_root
  | Chat_GET_root | Chat_POST_root
  | Requests_GET_root | Requests_POST_root | Requests_GET_id | Requests_PATCH_id

fun has_requireAuth :: "endpoint \<Rightarrow> bool" where
  "has_requireAuth Comments_GET_root = False"
| "has_requireAuth _ = True"

text \<open>
  Express runs the chain of a route: the middleware either answers or calls the handler
  with \<open>req.user\<close> set; a route without middleware calls the handler directly.
\<close>

definition serve ::
  "(string \<Rightarrow> jwt_payload option) \<Rightarrow> endpoint \<Rightarrow> auth_request \<Rightarrow>
   (jwt_payload option \<Rightarrow> 'a response) \<Rightarrow> 'a response" where
  "serve verify ep req handler =
     (if has_requireAuth ep
      then (case requireAuth verify req of
              Inl r \<Rightarrow> r
            | Inr payload \<Rightarrow> handler (Some payload))
      else handler None)"

text \<open>
  The tokens a request carries, as \<open>requireAuth\<close> would read them: the text after
  \<open>Bearer\<close> in the Authorization header, and the session cookie.
\<close>

definition carried_tokens :: "auth_request \<Rightarrow> string list" where
  "carried_tokens req =
     (case hdr_authorization req of
        None \<Rightarrow> []
      | Some h \<Rightarrow> if take 7 h = ''Bearer '' then [trim (drop 7 h)] else [])
     @ (case cookie_auth_token req of None \<Rightarrow> [] | Some c \<Rightarrow> [c])"

section \<open>Subscriptions: the payment webhook (routes/payments, in src/routes/requests.ts) and the manual subscribe (routes/plans, in unnamed/part_001)\<close>

text \<open>
  The three writes both transactions are made of. \<open>userPlan.upsert\<close> on the unique key
  (userId, planId) updates the row when there is one and inserts \<open>created\<close> otherwise;
  an insert fails on a missing profile or plan (foreign keys) and on a duplicate id.
\<close>

definition userPlan_upsert ::
  "db \<Rightarrow> string \<Rightarrow> string \<Rightarrow> userPlan \<Rightarrow> (userPlan \<Rightarrow> userPlan) \<Rightarrow> thrown + (userPlan \<times> db)" where
  "userPlan_upsert d userId planId created update =
     (case find (\<lambda>r. up_userId r = userId \<and> up_planId r = planId) (userPlans d) of
        Some old \<Rightarrow>
          Inr (update old,
               d\<lparr>userPlans :=
                    map (\<lambda>r. if up_userId r = userId \<and> up_planId r = planId then update r else r)
                        (userPlans d)\<rparr>)
      | None \<Rightarrow>
          if findProfile d userId = None \<or> findPlan d planId = None \<or>
             find (\<lambda>r. up_id r = up_id created) (userPlans d) \<noteq> None
          then Inl PrismaError
          else Inr (created, d\<lparr>userPlans := userPlans d @ [created]\<rparr>))"

definition payment_create :: "db \<Rightarrow> payment \<Rightarrow> thrown + db" where
  "payment_create d p =
     (if findProfile d (pay_userId p) = None \<or>
         (case pay_planId p of None \<Rightarrow> False | Some i \<Rightarrow> findPlan d i = None) \<or>
         find (\<lambda>x. pay_id x = pay_id p) (payments d) \<noteq> None
      then Inl PrismaError
      else Inr (d\<lparr>payments := payments d @ [p]\<rparr>))"

definition profile_set_currentPlan :: "db \<Rightarrow> string \<Rightarrow> string \<Rightarrow> thrown + db" where
  "profile_set_currentPlan d userId planId =
     (if findProfile d userId = None \<or> findPlan d planId = None
      then Inl PrismaError
      else Inr (d\<lparr>profiles :=
                     map (\<lambda>p. if p_id p = userId then p\<lparr>p_currentPlanId := Some planId\<rparr> else p)
                         (profiles d)\<rparr>))"

text \<open>
  The Stripe objects the webhook reads. \<open>cs_durationDays\<close> is
  \<open>parseInt(session.metadata.durationDays)\<close>, \<open>None\<close> for \<open>NaN\<close>.
\<close>

record checkout_session =
  cs_id :: string
  cs_userId :: string
  cs_planId :: string
  cs_durationDays :: "int option"
  cs_amount_total :: int

datatype stripe_event =
    CheckoutSessionCompleted checkout_session
  | PaymentIntentPaymentFailed string
  | OtherEvent string

text \<open>
  The transaction of the \<open>checkout.session.completed\<close> branch (lines 368-417 of
  src/routes/requests.ts): the payment row, the upsert, the profile's current plan. The
  expiry is \<open>new Date()\<close> moved by the duration with \<open>setDate\<close>; a \<open>NaN\<close> duration or a
  result out of range gives an invalid date, which the upsert rejects. Every
  \<open>new Date()\<close> of one request is the instant \<open>now\<close>.
\<close>

definition checkout_completed_tx ::
  "zone \<Rightarrow> db \<Rightarrow> time \<Rightarrow> string \<Rightarrow> string \<Rightarrow> checkout_session \<Rightarrow> thrown + db" where
  "checkout_completed_tx z d now newPaymentId newUserPlanId session =
     (case payment_create d
             \<lparr>pay_id = newPaymentId, pay_userId = cs_userId session,
              pay_planId = Some (cs_planId session),
              pay_amount = of_int (cs_amount_total session) / 100,
              pay_status = Succeeded, pay_provider = Some ''stripe'',
              pay_reference = Some (cs_id session), pay_paidAt = Some now\<rparr> of
        Inl e \<Rightarrow> Inl e
      | Inr d1 \<Rightarrow>
          (case cs_durationDays session of
             None \<Rightarrow> Inl PrismaError
           | Some n \<Rightarrow>
               (case addDays z now n of
                  None \<Rightarrow> Inl PrismaError
                | Some expiresAt \<Rightarrow>
                    (case userPlan_upsert d1 (cs_userId session) (cs_planId session)
                            \<lparr>up_id = newUserPlanId, up_userId = cs_userId session,
                             up_planId = cs_planId session, up_startedAt = now,
                             up_expiresAt = Some expiresAt, up_isActive = True,
                             up_lettersUsed = 0, up_audioMinutesUsed = 0\<rparr>
                            (\<lambda>r. r\<lparr>up_isActive := True, up_expiresAt := Some expiresAt,
                                    up_lettersUsed := 0, up_audioMinutesUsed := 0,
                                    up_startedAt := now\<rparr>) of
                       Inl e \<Rightarrow> Inl e
                     | Inr (_, d2) \<Rightarrow>
                         profile_set_currentPlan d2 (cs_userId session) (cs_planId session)))))"

datatype ack = Received

text \<open>
  The handler \<open>router.post('/webhook', ...)\<close>. \<open>stripeConfigured\<close> says whether
  src/lib/stripe.ts has built a client, and \<open>constructed\<close> is what
  \<open>stripe.webhooks.constructEvent(req.body, sig, secret)\<close> returns: the event, or
  \<open>None\<close> when it throws.
\<close>

definition post_webhook ::
  "zone \<Rightarrow> db \<Rightarrow> time \<Rightarrow> string \<Rightarrow> string \<Rightarrow> bool \<Rightarrow> string option \<Rightarrow>
   stripe_event option \<Rightarrow> ack response \<times> db" where
  "post_webhook z d now newPaymentId newUserPlanId stripeConfigured sig constructed =
     (if \<not> stripeConfigured then (ErrorJson 503 None, d)
      else if \<not> assigned sig then (ErrorJson 400 None, d)
      else
        (case constructed of
           None \<Rightarrow> (ErrorJson 400 None, d)
         | Some (CheckoutSessionCompleted session) \<Rightarrow>
             (case checkout_completed_tx z d now newPaymentId newUserPlanId session of
                Inl _ \<Rightarrow> (ErrorJson 500 None, d)
              | Inr d' \<Rightarrow> (Json 200 Received, d'))
         | Some (PaymentIntentPaymentFailed _) \<Rightarrow> (Json 200 Received, d)
         | Some (OtherEvent _) \<Rightarrow> (Json 200 Received, d)))"

text \<open>
  The route as the server mounts it (server.ts, unnamed/part_006). \<open>express.json()\<close> is
  installed at line 57 for every path, in front of the payments router of line 87, and
  no route reads the body before it or keeps the bytes received. A body the parser
  rejects is answered by the error handler of lines 98-108 with the parser's status
  (\<open>bodyError\<close>), and the handler is not run. Otherwise \<open>req.body\<close> is the object the
  parser has left: the parsed JSON, or the empty object for a body of another content
  type. \<open>constructEvent\<close> verifies the signature over the payload as a string or a
  buffer and then parses that string; given an object it throws. \<open>signedEvent\<close> is the
  library's verification of a raw payload against the signature header.
\<close>

datatype request_body = RawBody string | ParsedObject

definition constructEvent ::
  "(string \<Rightarrow> string \<Rightarrow> stripe_event option) \<Rightarrow> request_body \<Rightarrow> string option \<Rightarrow>
   stripe_event option" where
  "constructEvent signedEvent body sig =
     (case (body, sig) of
        (RawBody raw, Some header) \<Rightarrow> signedEvent raw header
      | _ \<Rightarrow> None)"

definition express_json :: "string \<Rightarrow> nat option \<Rightarrow> nat + request_body" where
  "express_json raw bodyError =
     (case bodyError of Some status \<Rightarrow> Inl status | None \<Rightarrow> Inr ParsedObject)"

definition webhook_route ::
  "zone \<Rightarrow> db \<Rightarrow> time \<Rightarrow> string \<Rightarrow> string \<Rightarrow> bool \<Rightarrow>
   (string \<Rightarrow> string \<Rightarrow> stripe_event option) \<Rightarrow> string option \<Rightarrow> string \<Rightarrow> nat option \<Rightarrow>
   ack response \<times> db" where
  "webhook_route z d now newPaymentId newUserPlanId stripeConfigured signedEvent sig raw bodyError =
     (case express_json raw bodyError of
        Inl status \<Rightarrow> (ErrorJson status None, d)
      | Inr body \<Rightarrow>
          post_webhook z d now newPaymentId newUserPlanId stripeConfigured sig
            (constructEvent signedEvent body sig))"

text \<open>Decimal digits of a number, for the reference \<open>`SUB-${Date.now()}`\<close>.\<close>

fun show_nat :: "nat \<Rightarrow> string" where
  "show_nat n =
     (if n < 10 then [''0123456789'' ! n]
      else show_nat (n div 10) @ [''0123456789'' ! (n mod 10)])"

definition show_int :: "int \<Rightarrow> string" where
  "show_int i = (if i < 0 then CHR ''-'' # show_nat (nat (- i)) else show_nat (nat i))"

text \<open>
  The expiry of lines 267-268 (\<open>new Date()\<close> moved by the plan's \<open>durationDays\<close>) and
  the transaction of \<open>POST /plans/subscribe\<close> (lines 271-316 of unnamed/part_001): the
  upsert, which rejects an invalid date, the profile's current plan, a payment row of
  provider \<open>manual\<close>.
\<close>

definition subscribe_tx ::
  "zone \<Rightarrow> db \<Rightarrow> time \<Rightarrow> string \<Rightarrow> string \<Rightarrow> string \<Rightarrow> plan \<Rightarrow> thrown + (userPlan \<times> db)" where
  "subscribe_tx z d now newUserPlanId newPaymentId userId pl =
     (case addDays z now (pl_durationDays pl) of
        None \<Rightarrow> Inl PrismaError
      | Some expiresAt \<Rightarrow>
          (case userPlan_upsert d userId (pl_id pl)
                  \<lparr>up_id = newUserPlanId, up_userId = userId, up_planId = pl_id pl,
                   up_startedAt = now, up_expiresAt = Some expiresAt,
                   up_isActive = True, up_lettersUsed = 0, up_audioMinutesUsed = 0\<rparr>
                  (\<lambda>r. r\<lparr>up_expiresAt := Some expiresAt,
                          up_isActive := True, up_lettersUsed := 0, up_audioMinutesUsed := 0\<rparr>) of
             Inl e \<Rightarrow> Inl e
           | Inr (upserted, d1) \<Rightarrow>
               (case profile_set_currentPlan d1 userId (pl_id pl) of
                  Inl e \<Rightarrow> Inl e
                | Inr d2 \<Rightarrow>
                    (case payment_create d2
                            \<lparr>pay_id = newPaymentId, pay_userId = userId,
                             pay_planId = Some (pl_id pl),
                             pay_amount = pl_price pl, pay_status = Succeeded,
                             pay_provider = Some ''manual'',
                             pay_reference = Some (''SUB-'' @ show_int now), pay_paidAt = None\<rparr> of
                       Inl e \<Rightarrow> Inl e
                     | Inr d3 \<Rightarrow> Inr (upserted, d3)))))"

text \<open>\<open>router.post('/subscribe', requireAuth, ...)\<close>, after the middleware.\<close>

definition post_subscribe ::
  "zone \<Rightarrow> db \<Rightarrow> time \<Rightarrow> string \<Rightarrow> string \<Rightarrow> string \<Rightarrow> string option \<Rightarrow>
   (userPlan \<times> plan) response \<times> db" where
  "post_subscribe z d now newUserPlanId newPaymentId userId planId =
     (if \<not> assigned planId then (ErrorJson 400 None, d)
      else
        (case findPlan d (the planId) of
           None \<Rightarrow> (ErrorJson 404 None, d)
         | Some pl \<Rightarrow>
             (case subscribe_tx z d now newUserPlanId newPaymentId userId pl of
                Inl _ \<Rightarrow> (ErrorJson 500 None, d)
              | Inr (subscription, d') \<Rightarrow> (Json 200 (subscription, pl), d'))))"

section \<open>Registration (routes/auth, unnamed/part_004)\<close>

record register_request =
  rr_email :: "string option"
  rr_password :: "string option"
  rr_fullName :: "string option"
  rr_role :: "string option"

text \<open>
  The transaction of \<open>POST /auth/register\<close> (lines 32-81): the user, the profile with
  the user's id, and for a dreamer the trial subscription. The trial plan is the first
  active plan flagged as trial by \<open>createdAt\<close> descending; a subscription is created
  when that plan has a truthy \<open>trialDurationDays\<close>, with \<open>new Date()\<close> moved by that
  many days with \<open>setDate\<close> as its expiry. The inserts fail on a duplicate id, a
  duplicate e-mail, a duplicate (userId, planId) and an invalid date.
\<close>

definition register_tx ::
  "zone \<Rightarrow> db \<Rightarrow> time \<Rightarrow> string \<Rightarrow> string \<Rightarrow> string \<Rightarrow> string \<Rightarrow> string \<Rightarrow> role \<Rightarrow>
   thrown + (user \<times> profile \<times> db)" where
  "register_tx z d now newUserId newUserPlanId email hashedPassword fullName role =
     (if find (\<lambda>u. u_id u = newUserId \<or> u_email u = email) (users d) \<noteq> None
      then Inl PrismaError
      else
        let createdUser = \<lparr>u_id = newUserId, u_email = email, u_password = hashedPassword\<rparr>;
            d1 = d\<lparr>users := users d @ [createdUser]\<rparr>
        in if find (\<lambda>p. p_id p = newUserId \<or> p_email p = email) (profiles d1) \<noteq> None
           then Inl PrismaError
           else
             let createdProfile =
                   \<lparr>p_id = newUserId, p_email = email, p_fullName = fullName, p_role = role,
                    p_currentPlanId = None\<rparr>;
                 d2 = d1\<lparr>profiles := profiles d1 @ [createdProfile]\<rparr>
             in if role = Dreamer
                then
                  (case first_desc pl_createdAt
                          (filter (\<lambda>p. pl_isTrial p \<and> pl_isActive p) (plans d2)) of
                     None \<Rightarrow> Inr (createdUser, createdProfile, d2)
                   | Some trialPlan \<Rightarrow>
                       (case pl_trialDurationDays trialPlan of
                          None \<Rightarrow> Inr (createdUser, createdProfile, d2)
                        | Some days \<Rightarrow>
                            if days = 0 then Inr (createdUser, createdProfile, d2)
                            else
                              (case addDays z now days of
                                 None \<Rightarrow> Inl PrismaError
                               | Some expiresAt \<Rightarrow>
                                   if find (\<lambda>r. up_id r = newUserPlanId \<or>
                                                (up_userId r = newUserId \<and>
                                                 up_planId r = pl_id trialPlan))
                                        (userPlans d2) \<noteq> None
                                   then Inl PrismaError
                                   else
                                     Inr (createdUser, createdProfile,
                                          d2\<lparr>userPlans := userPlans d2 @
                                               [\<lparr>up_id = newUserPlanId, up_userId = newUserId,
                                                 up_planId = pl_id trialPlan, up_startedAt = now,
                                                 up_expiresAt = Some expiresAt,
                                                 up_isActive = True, up_lettersUsed = 0,
                                                 up_audioMinutesUsed = 0\<rparr>]\<rparr>))))
                else Inr (createdUser, createdProfile, d2))"

text \<open>
  \<open>router.post('/register', ...)\<close>. \<open>hashedPassword\<close> is what \<open>hashPassword\<close>
  returns; the session cookie set on success is not part of the model.
\<close>

definition post_register ::
  "zone \<Rightarrow> db \<Rightarrow> time \<Rightarrow> string \<Rightarrow> string \<Rightarrow> string \<Rightarrow> register_request \<Rightarrow>
   (user \<times> profile) response \<times> db" where
  "post_register z d now newUserId newUserPlanId hashedPassword rq =
     (if \<not> (assigned (rr_email rq) \<and> assigned (rr_password rq) \<and> assigned (rr_fullName rq))
      then (ErrorJson 400 None, d)
      else
        let role = (case rr_role rq of None \<Rightarrow> ''dreamer'' | Some r \<Rightarrow> r) in
        if \<not> (role = ''dreamer'' \<or> role = ''interpreter'')
        then (ErrorJson 403 None, d)
        else if find (\<lambda>u. u_email u = the (rr_email rq)) (users d) \<noteq> None
        then (ErrorJson 409 None, d)
        else
          (case register_tx z d now newUserId newUserPlanId (the (rr_email rq)) hashedPassword
                  (the (rr_fullName rq)) (if role = ''dreamer'' then Dreamer else Interpreter) of
             Inl _ \<Rightarrow> (ErrorJson 500 None, d)
           | Inr (createdUser, createdProfile, d') \<Rightarrow>
               (Json 201 (createdUser, createdProfile), d')))"

section \<open>Sequences of creations and the Unicode encoding forms\<close>

text \<open>
  For the statements about several creations in a row: a creation is the instant, the
  generated dream id, the requester and the body; \<open>create_dreams\<close> runs the handler on
  each in turn, \<open>created_under sid\<close> says that each was answered 201 and had the
  subscription with id \<open>sid\<close> as its effective one, and \<open>code_points_submitted\<close> is
  the number of elements the string iterator yields for the description.
\<close>

type_synonym creation = "time \<times> string \<times> string \<times> dream_request"

fun create_dreams :: "(jsstring \<Rightarrow> jsnum) \<Rightarrow> db \<Rightarrow> creation list \<Rightarrow> db" where
  "create_dreams s2n d [] = d"
| "create_dreams s2n d ((now, newId, userId, rq) # rest) =
     create_dreams s2n (snd (post_dreams s2n d now newId userId rq)) rest"

fun created_under :: "(jsstring \<Rightarrow> jsnum) \<Rightarrow> string \<Rightarrow> db \<Rightarrow> creation list \<Rightarrow> bool" where
  "created_under s2n sid d [] = True"
| "created_under s2n sid d ((now, newId, userId, rq) # rest) =
     ((case getActiveSubscription d now userId of
         None \<Rightarrow> False
       | Some (sub, _) \<Rightarrow> up_id sub = sid) \<and>
      (case fst (post_dreams s2n d now newId userId rq) of
         Json st _ \<Rightarrow> st = 201
       | ErrorJson _ _ \<Rightarrow> False) \<and>
      created_under s2n sid (snd (post_dreams s2n d now newId userId rq)) rest)"

fun code_points_submitted :: "creation \<Rightarrow> nat" where
  "code_points_submitted (now, newId, userId, rq) =
     (case rq_description rq of None \<Rightarrow> 0 | Some s \<Rightarrow> length (array_from s))"

text \<open>
  The encoding forms of the Unicode standard, for comparison: a scalar value is a code
  point outside the surrogate range; UTF-16 writes it as one code unit, or as a surrogate
  pair above U+FFFF; UTF-8 writes it as one to four bytes.
\<close>

definition is_scalar_value :: "nat \<Rightarrow> bool" where
  "is_scalar_value c = (c < 0xD800 \<or> (0xE000 \<le> c \<and> c < 0x110000))"

definition utf16_units :: "nat \<Rightarrow> jsstring" where
  "utf16_units c =
     (if c < 0x10000 then [of_nat c]
      else [of_nat (0xD800 + (c - 0x10000) div 0x400), of_nat (0xDC00 + (c - 0x10000) mod 0x400)])"

definition utf16 :: "nat list \<Rightarrow> jsstring" where
  "utf16 cps = concat (map utf16_units cps)"

definition utf8_length :: "nat \<Rightarrow> nat" where
  "utf8_length c = (if c < 0x80 then 1 else if c < 0x800 then 2 else if c < 0x10000 then 3 else 4)"

section \<open>Example data\<close>

text \<open>
  A small database used to run the handlers: a plan with a letter quota of 10 and an
  audio quota of 5 minutes and a second plan without these quotas, an admin, a super
  admin, an interpreter and two dreamers. The first dreamer's subscriptions are expired
  or inactive at instant 1000; the second has two live ones, started at 100 and at 300.
\<close>

definition ex_plan :: plan where
  "ex_plan = \<lparr>pl_id = ''plan1'', pl_price = 10, pl_durationDays = 30, pl_maxDreams = None,
     pl_letterQuota = Some 10, pl_audioMinutesQuota = Some 5, pl_isActive = True,
     pl_isTrial = False, pl_trialDurationDays = None, pl_createdAt = 0\<rparr>"

definition ex_plan2 :: plan where
  "ex_plan2 = \<lparr>pl_id = ''plan2'', pl_price = 0, pl_durationDays = 365, pl_maxDreams = Some 100,
     pl_letterQuota = None, pl_audioMinutesQuota = None, pl_isActive = True,
     pl_isTrial = False, pl_trialDurationDays = None, pl_createdAt = 50\<rparr>"

definition ex_user :: "string \<Rightarrow> user" where
  "ex_user i = \<lparr>u_id = i, u_email = i @ ''@example.org'', u_password = ''$2a$10$hash''\<rparr>"

definition ex_users :: "user list" where
  "ex_users = [ex_user ''admin1'', ex_user ''root1'', ex_user ''dreamer1'', ex_user ''dreamer2'',
               ex_user ''interp1'']"

definition ex_profile :: "string \<Rightarrow> role \<Rightarrow> profile" where
  "ex_profile i r = \<lparr>p_id = i, p_email = i @ ''@example.org'', p_fullName = i, p_role = r,
     p_currentPlanId = None\<rparr>"

definition ex_sub :: "string \<Rightarrow> string \<Rightarrow> string \<Rightarrow> time \<Rightarrow> time option \<Rightarrow> bool \<Rightarrow> userPlan" where
  "ex_sub i u p started expires active = \<lparr>up_id = i, up_userId = u, up_planId = p,
     up_startedAt = started, up_expiresAt = expires, up_isActive = active,
     up_lettersUsed = 0, up_audioMinutesUsed = 0\<rparr>"

definition ex_db :: db where
  "ex_db = \<lparr>users = ex_users,
     profiles = [ex_profile ''admin1'' Admin, ex_profile ''root1'' SuperAdmin,
                 ex_profile ''dreamer1'' Dreamer, ex_profile ''dreamer2'' Dreamer,
                 ex_profile ''interp1'' Interpreter],
     plans = [ex_plan, ex_plan2],
     userPlans = [ex_sub ''s1'' ''dreamer1'' ''plan1'' 100 (Some 500) True,
                  ex_sub ''s2'' ''dreamer1'' ''plan2'' 200 None False,
                  ex_sub ''s3'' ''dreamer2'' ''plan2'' 100 None True,
                  ex_sub ''s4'' ''dreamer2'' ''plan1'' 300 (Some 5000) True],
     dreams = [], payments = [], messages = [], comments = []\<rparr>"

text \<open>A dream request with a one-letter title, the given description and audio minutes.\<close>

definition ex_request :: "jsstring \<Rightarrow> jsvalue \<Rightarrow> dream_request" where
  "ex_request description audio = \<lparr>rq_title = Some [0x74], rq_description = Some description,
     rq_dream_date = None, rq_mood = None, rq_audioMinutes = audio\<rparr>"

text \<open>A string conversion for the examples: the text \<open>2.5\<close> reads as the number 2.5.\<close>

definition ex_s2n :: "jsstring \<Rightarrow> jsnum" where
  "ex_s2n s = (if s = [0x32, 0x2E, 0x35] then Fin (5 / 2) else NaN)"

text \<open>
  Two descriptions: one of seven code points in eight code units (it holds a character
  outside the Basic Multilingual Plane), one of five. \<open>ex_db1\<close> is the example
  database after the second dreamer has submitted the first of them at instant 1000.
\<close>

definition ex_seven :: jsstring where
  "ex_seven = [0x62D, 0x644, 0x645, 0x20, 0xD83C, 0xDF19, 0x20, 0x62A]"

definition ex_five :: jsstring where
  "ex_five = [0x633, 0x644, 0x627, 0x645, 0x21]"

definition ex_dream :: "string \<Rightarrow> string \<Rightarrow> jsstring \<Rightarrow> time \<Rightarrow> dream" where
  "ex_dream i u description t = \<lparr>d_id = i, d_dreamerId = u, d_interpreterId = None,
     d_title = [0x74], d_content = description, d_description = description,
     d_dreamDate = None, d_mood = None, d_status = New, d_createdAt = t\<rparr>"

definition ex_db1 :: db where
  "ex_db1 = ex_db\<lparr>dreams := [ex_dream ''d1'' ''dreamer2'' ex_seven 1000],
     userPlans := [ex_sub ''s1'' ''dreamer1'' ''plan1'' 100 (Some 500) True,
                   ex_sub ''s2'' ''dreamer1'' ''plan2'' 200 None False,
                   ex_sub ''s3'' ''dreamer2'' ''plan2'' 100 None True,
                   (ex_sub ''s4'' ''dreamer2'' ''plan1'' 300 (Some 5000) True)\<lparr>up_lettersUsed := 7\<rparr>]\<rparr>"

text \<open>
  A third description, of three code points, and the example database after it has been
  submitted at instant 2000 as well.
\<close>

definition ex_three :: jsstring where
  "ex_three = [0x646, 0x648, 0x631]"

definition ex_db2 :: db where
  "ex_db2 = ex_db\<lparr>dreams := [ex_dream ''d1'' ''dreamer2'' ex_seven 1000,
                               ex_dream ''d2'' ''dreamer2'' ex_three 2000],
     userPlans := [ex_sub ''s1'' ''dreamer1'' ''plan1'' 100 (Some 500) True,
                   ex_sub ''s2'' ''dreamer1'' ''plan2'' 200 None False,
                   ex_sub ''s3'' ''dreamer2'' ''plan2'' 100 None True,
                   (ex_sub ''s4'' ''dreamer2'' ''plan1'' 300 (Some 5000) True)\<lparr>up_lettersUsed := 10\<rparr>]\<rparr>"

definition ex_steps :: "creation list" where
  "ex_steps = [(1000, ''d1'', ''dreamer2'', ex_request ex_seven Undefined),
               (2000, ''d2'', ''dreamer2'', ex_request ex_three Undefined)]"

text \<open>
  For the audio minutes: the example database with three audio minutes already used
  under \<open>s4\<close>, the request text \<open>2.5\<close>, the example database after the second
  dreamer has submitted the three-letter description with \<open>audioMinutes: "2.5"\<close>, and
  the one with three audio minutes used after the same description has been submitted
  with \<open>audioMinutes: 1.5\<close>.
\<close>

definition ex_db_audio :: db where
  "ex_db_audio = ex_db\<lparr>userPlans :=
        [ex_sub ''s1'' ''dreamer1'' ''plan1'' 100 (Some 500) True,
         ex_sub ''s2'' ''dreamer1'' ''plan2'' 200 None False,
         ex_sub ''s3'' ''dreamer2'' ''plan2'' 100 None True,
         (ex_sub ''s4'' ''dreamer2'' ''plan1'' 300 (Some 5000) True)\<lparr>up_audioMinutesUsed := 3\<rparr>]\<rparr>"

definition ex_two_and_a_half :: jsstring where
  "ex_two_and_a_half = [0x32, 0x2E, 0x35]"

definition ex_db3 :: db where
  "ex_db3 = ex_db\<lparr>dreams := [ex_dream ''d1'' ''dreamer2'' ex_three 1000],
     userPlans := [ex_sub ''s1'' ''dreamer1'' ''plan1'' 100 (Some 500) True,
                   ex_sub ''s2'' ''dreamer1'' ''plan2'' 200 None False,
                   ex_sub ''s3'' ''dreamer2'' ''plan2'' 100 None True,
                   (ex_sub ''s4'' ''dreamer2'' ''plan1'' 300 (Some 5000) True)
                     \<lparr>up_lettersUsed := 3, up_audioMinutesUsed := 3\<rparr>]\<rparr>"

definition ex_db4 :: db where
  "ex_db4 = ex_db\<lparr>dreams := [ex_dream ''d1'' ''dreamer2'' ex_three 1000],
     userPlans := [ex_sub ''s1'' ''dreamer1'' ''plan1'' 100 (Some 500) True,
                   ex_sub ''s2'' ''dreamer1'' ''plan2'' 200 None False,
                   ex_sub ''s3'' ''dreamer2'' ''plan2'' 100 None True,
                   (ex_sub ''s4'' ''dreamer2'' ''plan1'' 300 (Some 5000) True)
                     \<lparr>up_lettersUsed := 3, up_audioMinutesUsed := 5\<rparr>]\<rparr>"

text \<open>
  For the messages of a dream: the example database after the first creation, whose
  dream \<open>d1\<close> has no interpreter, with one stored message; and a message body.
\<close>

definition ex_message_request :: message_request where
  "ex_message_request = \<lparr>mr_dream_id = Some ''d1'', mr_content = Some [0x68, 0x69], mr_audio = None\<rparr>"

definition ex_message :: message where
  "ex_message = \<lparr>m_id = ''m0'', m_dreamId = ''d1'', m_senderId = ''root1'', m_content = [0x6F, 0x6B],
     m_messageType = TextMessage, m_audioUrl = None, m_createdAt = 1500\<rparr>"

definition ex_db_chat :: db where
  "ex_db_chat = ex_db1\<lparr>messages := [ex_message]\<rparr>"

text \<open>
  A stored comment on dream \<open>d1\<close>, a request without any token, and one with tokens
  that do not verify.
\<close>

definition ex_comment :: comment where
  "ex_comment = \<lparr>c_id = ''c1'', c_dreamId = ''d1'', c_userId = ''interp1'',
     c_content = [0x6F, 0x6B], c_createdAt = 1200\<rparr>"

definition ex_db_comments :: db where
  "ex_db_comments = ex_db1\<lparr>comments := [ex_comment]\<rparr>"

definition ex_anonymous :: auth_request where
  "ex_anonymous = \<lparr>hdr_authorization = None, cookie_auth_token = None\<rparr>"

definition ex_forged :: auth_request where
  "ex_forged = \<lparr>hdr_authorization = Some ''Bearer abc'', cookie_auth_token = Some ''xyz''\<rparr>"

text \<open>
  Two time zones: UTC, and one that is three hours ahead of UTC until the instant
  86400000 and two hours ahead from then on, as where summer time ends that day (a
  local time of the hour that occurs twice is read with the offset before the change).
\<close>

definition ex_utc :: zone where
  "ex_utc = \<lparr>utc_offset_at = (\<lambda>t. 0), local_offset_at = (\<lambda>l. 0)\<rparr>"


text \<open>
  For the payment paths: a completed checkout session \<open>cs_123\<close> of the second dreamer
  for the first plan, over 30 days and 10.00; the payment row the handler writes for
  it; a verification that accepts every payload as the event of that session; and the
  example database with the dreamer's current plan set, as a function of the dreamer's
  subscription to that plan, the payments and the dreams. \<open>ex_paid_once\<close> is the
  example database after the handler has processed the session at instant 500,
  \<open>ex_paid_used\<close> after a dream of seven letters submitted then at 1000,
  \<open>ex_paid_twice\<close> after the handler has processed the same session again at 2000, and
  \<open>ex_resubscribed\<close> is \<open>ex_paid_used\<close> after a manual subscribe to the same plan at
  9000, all on a server in UTC.
\<close>

definition ex_session :: checkout_session where
  "ex_session = \<lparr>cs_id = ''cs_123'', cs_userId = ''dreamer2'', cs_planId = ''plan1'',
     cs_durationDays = Some 30, cs_amount_total = 1000\<rparr>"

definition ex_signed :: "string \<Rightarrow> string \<Rightarrow> stripe_event option" where
  "ex_signed raw header = Some (CheckoutSessionCompleted ex_session)"

definition ex_stripe_payment :: "string \<Rightarrow> time \<Rightarrow> payment" where
  "ex_stripe_payment i t = \<lparr>pay_id = i, pay_userId = ''dreamer2'', pay_planId = Some ''plan1'',
     pay_amount = 10, pay_status = Succeeded, pay_provider = Some ''stripe'',
     pay_reference = Some ''cs_123'', pay_paidAt = Some t\<rparr>"

definition ex_s4 :: "time \<Rightarrow> time \<Rightarrow> int \<Rightarrow> userPlan" where
  "ex_s4 started expires letters = \<lparr>up_id = ''s4'', up_userId = ''dreamer2'', up_planId = ''plan1'',
     up_startedAt = started, up_expiresAt = Some expires, up_isActive = True,
     up_lettersUsed = letters, up_audioMinutesUsed = 0\<rparr>"

definition ex_paid :: "userPlan \<Rightarrow> payment list \<Rightarrow> dream list \<Rightarrow> db" where
  "ex_paid s4 pays ds = \<lparr>users = ex_users,
     profiles = [ex_profile ''admin1'' Admin, ex_profile ''root1'' SuperAdmin,
                 ex_profile ''dreamer1'' Dreamer,
                 (ex_profile ''dreamer2'' Dreamer)\<lparr>p_currentPlanId := Some ''plan1''\<rparr>,
                 ex_profile ''interp1'' Interpreter],
     plans = [ex_plan, ex_plan2],
     userPlans = [ex_sub ''s1'' ''dreamer1'' ''plan1'' 100 (Some 500) True,
                  ex_sub ''s2'' ''dreamer1'' ''plan2'' 200 None False,
                  ex_sub ''s3'' ''dreamer2'' ''plan2'' 100 None True,
                  s4],
     dreams = ds, payments = pays, messages = [], comments = []\<rparr>"

definition ex_paid_once :: db where
  "ex_paid_once = ex_paid (ex_s4 500 2592000500 0) [ex_stripe_payment ''pay1'' 500] []"

definition ex_paid_used :: db where
  "ex_paid_used = ex_paid (ex_s4 500 2592000500 7) [ex_stripe_payment ''pay1'' 500]
                    [ex_dream ''d1'' ''dreamer2'' ex_seven 1000]"

definition ex_paid_twice :: db where
  "ex_paid_twice = ex_paid (ex_s4 2000 2592002000 0)
                     [ex_stripe_payment ''pay1'' 500, ex_stripe_payment ''pay2'' 2000]
                     [ex_dream ''d1'' ''dreamer2'' ex_seven 1000]"

definition ex_resubscribed :: db where
  "ex_resubscribed = ex_paid (ex_s4 500 2592009000 0)
     [ex_stripe_payment ''pay1'' 500,
      \<lparr>pay_id = ''pay9'', pay_userId = ''dreamer2'', pay_planId = Some ''plan1'',
       pay_amount = 10, pay_status = Succeeded, pay_provider = Some ''manual'',
       pay_reference = Some ''SUB-9000'', pay_paidAt = None\<rparr>]
     [ex_dream ''d1'' ''dreamer2'' ex_seven 1000]"

text \<open>
  For registration: a trial plan of seven trial days (and a regular duration of 30),
  the example database with it, a registration body, and the rows a registration at
  instant 1000 creates on a server in UTC.
\<close>

definition ex_trial_week :: plan where
  "ex_trial_week = \<lparr>pl_id = ''trial7'', pl_price = 0, pl_durationDays = 30, pl_maxDreams = Some 10,
     pl_letterQuota = Some 5000, pl_audioMinutesQuota = Some 30, pl_isActive = True,
     pl_isTrial = True, pl_trialDurationDays = Some 7, pl_createdAt = 10\<rparr>"

definition ex_db_trial :: db where
  "ex_db_trial = ex_db\<lparr>plans := [ex_plan, ex_plan2, ex_trial_week]\<rparr>"

definition ex_registration :: "string option \<Rightarrow> register_request" where
  "ex_registration r = \<lparr>rr_email = Some ''new@example.org'', rr_password = Some ''secret'',
     rr_fullName = Some ''New'', rr_role = r\<rparr>"

definition ex_new_user :: user where
  "ex_new_user = \<lparr>u_id = ''u9'', u_email = ''new@example.org'', u_password = ''$2a$10$new''\<rparr>"

definition ex_new_profile :: "role \<Rightarrow> profile" where
  "ex_new_profile r = \<lparr>p_id = ''u9'', p_email = ''new@example.org'', p_fullName = ''New'',
     p_role = r, p_currentPlanId = None\<rparr>"

definition ex_trial_sub :: userPlan where
  "ex_trial_sub = \<lparr>up_id = ''up9'', up_userId = ''u9'', up_planId = ''trial7'',
     up_startedAt = 1000, up_expiresAt = Some 604801000, up_isActive = True,
     up_lettersUsed = 0, up_audioMinutesUsed = 0\<rparr>"

section \<open>The effective subscription\<close>

lemma first_desc_None: "(first_desc key xs = None) = (xs = [])"
  by (induction xs) (auto split: option.splits)

lemma first_desc_Some:
  "first_desc key xs = Some s \<Longrightarrow> s \<in> set xs \<and> (\<forall>r \<in> set xs. key r \<le> key s)"
proof (induction xs arbitrary: s)
  case Nil
  then show ?case by simp
next
  case (Cons x xs)
  show ?case
  proof (cases "first_desc key xs")
    case None
    then have "xs = []" by (simp add: first_desc_None)
    with Cons.prems show ?thesis by simp
  next
    case (Some b)
    from Cons.IH [OF Some] have b: "b \<in> set xs" "\<forall>r \<in> set xs. key r \<le> key b"
      by simp_all
    show ?thesis
    proof (cases "key x < key b")
      case True
      with Some Cons.prems have "s = b" by simp
      with b True show ?thesis by auto
    next
      case False
      with Some Cons.prems have "s = x" by simp
      with b False show ?thesis by fastforce
    qed
  qed
qed


lemma getActiveSubscription_Some:
  assumes "getActiveSubscription d now userId = Some (s, pl)"
  shows "s \<in> set (userPlans d) \<and> qualifying now userId s \<and> pl = findPlan d (up_planId s) \<and>
         (\<forall>r \<in> set (userPlans d). qualifying now userId r \<longrightarrow> up_startedAt r \<le> up_startedAt s)"
proof -
  from assms obtain s' where
    s': "first_desc up_startedAt (filter (qualifying now userId) (userPlans d)) = Some s'"
    and eq: "s = s'" "pl = findPlan d (up_planId s')"
    by (auto simp: getActiveSubscription_def split: option.splits)
  from first_desc_Some [OF s'] eq show ?thesis by auto
qed




section \<open>Dream creation by an admin\<close>

text \<open>
  Claim C5 says that an admin or super admin who posts a title and a description gets
  201 with the created dream. The handler skips the subscription and quota checks for
  these roles and so never loads a subscription, but its transaction still reads
  \<open>subscription.id\<close> for the usage update; that read throws, the transaction rolls the
  new dream back, and the handler answers 500. This holds for every database, instant
  and request, so no admin can create a dream.
\<close>

theorem C5_admin_create_fails:
  assumes "findProfile d userId = Some prof"
      and "p_role prof = Admin \<or> p_role prof = SuperAdmin"
      and "present (rq_title rq)" and "present (rq_description rq)"
  shows "post_dreams s2n d now newId userId rq = (ErrorJson 500 None, d)"
proof -
  have denial_free: "create_dream_tx d now newId userId (the (rq_title rq))
      (the (rq_description rq)) rq None (countContentLetters (the (rq_description rq)))
      (audioMinutesRequested s2n (rq_audioMinutes rq)) = Inl PrismaError
    \<or> create_dream_tx d now newId userId (the (rq_title rq))
      (the (rq_description rq)) rq None (countContentLetters (the (rq_description rq)))
      (audioMinutesRequested s2n (rq_audioMinutes rq)) = Inl TypeError"
    by (simp add: create_dream_tx_def Let_def)
  with assms show ?thesis
    by (auto simp add: post_dreams_def Let_def)
qed

theorem C5_admin_create_fails_witness:
  "findProfile ex_db ''admin1'' = Some (ex_profile ''admin1'' Admin)
   \<and> post_dreams ex_s2n ex_db 1000 ''d1'' ''admin1'' (ex_request [0x62] Undefined) =
       (ErrorJson 500 None, ex_db)
   \<and> post_dreams ex_s2n ex_db 1000 ''d1'' ''root1'' (ex_request [0x62] Undefined) =
       (ErrorJson 500 None, ex_db)"
proof -
  have p: "findProfile ex_db ''admin1'' = Some (ex_profile ''admin1'' Admin)"
      "findProfile ex_db ''root1'' = Some (ex_profile ''root1'' SuperAdmin)"
    by (simp_all add: findProfile_def ex_db_def ex_profile_def)
  have v: "present (rq_title (ex_request [0x62] Undefined))"
      "present (rq_description (ex_request [0x62] Undefined))"
    by (simp_all add: ex_request_def present_def)
  have r: "p_role (ex_profile ''admin1'' Admin) = Admin"
      "p_role (ex_profile ''root1'' SuperAdmin) = SuperAdmin"
    by (simp_all add: ex_profile_def)
  from C5_admin_create_fails [OF p(1) _ v, of ex_s2n 1000 "''d1''"] r(1)
  have a: "post_dreams ex_s2n ex_db 1000 ''d1'' ''admin1'' (ex_request [0x62] Undefined) =
       (ErrorJson 500 None, ex_db)" by simp
  from C5_admin_create_fails [OF p(2) _ v, of ex_s2n 1000 "''d1''"] r(2)
  have b: "post_dreams ex_s2n ex_db 1000 ''d1'' ''root1'' (ex_request [0x62] Undefined) =
       (ErrorJson 500 None, ex_db)" by simp
  from p(1) a b show ?thesis by simp
qed

section \<open>Outcomes of dream creation\<close>

lemma create_dream_tx_Inr:
  assumes "create_dream_tx d now newId userId title description rq subscription letterCount audioReq
            = Inr (dream, d')"
  shows "\<exists>sub pl. subscription = Some (sub, pl) \<and>
           d' = d\<lparr>dreams := dreams d @ [dream],
                  userPlans := map (bump_usage (up_id sub) (int letterCount)
                                      (if gt_zero audioReq then the (int_increment audioReq) else 0))
                                   (userPlans d)\<rparr> \<and>
           (gt_zero audioReq \<longrightarrow> int_increment audioReq \<noteq> None) \<and>
           d_id dream = newId \<and> d_dreamerId dream = userId \<and> d_description dream = description \<and>
           d_content dream = description \<and> d_title dream = title \<and> d_createdAt dream = now \<and>
           d_interpreterId dream = None \<and> d_status dream = New"
  using assms
  by (auto simp add: create_dream_tx_def Let_def split: if_splits option.splits prod.splits)

lemma post_dreams_outcome:
  "(\<exists>st c. post_dreams s2n d now newId userId rq = (ErrorJson st c, d)) \<or>
   (\<exists>dream sub pl prof.
      post_dreams s2n d now newId userId rq =
        (Json 201 dream,
         d\<lparr>dreams := dreams d @ [dream],
           userPlans :=
             map (bump_usage (up_id sub) (int (countContentLetters (the (rq_description rq))))
                    (if gt_zero (audioMinutesRequested s2n (rq_audioMinutes rq))
                     then the (int_increment (audioMinutesRequested s2n (rq_audioMinutes rq)))
                     else 0))
                 (userPlans d)\<rparr>)
      \<and> getActiveSubscription d now userId = Some (sub, Some pl)
      \<and> present (rq_title rq) \<and> present (rq_description rq)
      \<and> findProfile d userId = Some prof \<and> p_role prof \<noteq> Admin \<and> p_role prof \<noteq> SuperAdmin
      \<and> (case pl_letterQuota pl of None \<Rightarrow> True
          | Some q \<Rightarrow> up_lettersUsed sub + int (countContentLetters (the (rq_description rq))) \<le> q)
      \<and> (gt_zero (audioMinutesRequested s2n (rq_audioMinutes rq)) \<longrightarrow>
           (case pl_audioMinutesQuota pl of None \<Rightarrow> True
            | Some q \<Rightarrow> \<not> sum_exceeds (up_audioMinutesUsed sub)
                          (audioMinutesRequested s2n (rq_audioMinutes rq)) q))
      \<and> d_dreamerId dream = userId \<and> d_description dream = the (rq_description rq))"
proof (cases "present (rq_title rq) \<and> present (rq_description rq)")
  case False
  then show ?thesis by (simp add: post_dreams_def)
next
  case valid: True
  show ?thesis
  proof (cases "findProfile d userId")
    case None
    with valid show ?thesis by (simp add: post_dreams_def)
  next
    case (Some prof)
    show ?thesis
    proof (cases "p_role prof = Admin \<or> p_role prof = SuperAdmin")
      case True
      with valid Some have "post_dreams s2n d now newId userId rq = (ErrorJson 500 None, d)"
        by (auto simp add: post_dreams_def Let_def create_dream_tx_def)
      then show ?thesis by simp
    next
      case nonadmin: False
      show ?thesis
      proof (cases "getActiveSubscription d now userId")
        case None
        with valid Some nonadmin show ?thesis by (simp add: post_dreams_def Let_def)
      next
        case sub: (Some sp)
        obtain sub plo where sp: "sp = (sub, plo)" by (cases sp)
        show ?thesis
        proof (cases plo)
          case None
          with valid Some nonadmin sub sp show ?thesis by (simp add: post_dreams_def Let_def)
        next
          case pl: (Some pl)
          let ?tx = "create_dream_tx d now newId userId (the (rq_title rq))
              (the (rq_description rq)) rq (Some (sub, Some pl))
              (countContentLetters (the (rq_description rq)))
              (audioMinutesRequested s2n (rq_audioMinutes rq))"
          show ?thesis
          proof (cases ?tx)
            case (Inl e)
            with valid Some nonadmin sub sp pl show ?thesis
              by (simp add: post_dreams_def Let_def split: option.splits)
          next
            case (Inr r)
            obtain dream d' where r: "r = (dream, d')" by (cases r)
            from create_dream_tx_Inr [OF Inr [unfolded r]]
            have d': "d' = d\<lparr>dreams := dreams d @ [dream],
                  userPlans := map (bump_usage (up_id sub) (int (countContentLetters (the (rq_description rq))))
                                      (if gt_zero (audioMinutesRequested s2n (rq_audioMinutes rq)) then the (int_increment (audioMinutesRequested s2n (rq_audioMinutes rq))) else 0))
                                   (userPlans d)\<rparr>"
              and dr: "d_dreamerId dream = userId" "d_description dream = the (rq_description rq)"
              by auto
            from valid Some nonadmin sub sp pl Inr r d' dr show ?thesis
              by (auto simp add: post_dreams_def Let_def split: option.splits if_splits)
          qed
        qed
      qed
    qed
  qed
qed

lemma ex_first_creation:
  "post_dreams ex_s2n ex_db 1000 ''d1'' ''dreamer2'' (ex_request ex_seven Undefined) =
     (Json 201 (ex_dream ''d1'' ''dreamer2'' ex_seven 1000), ex_db1)"
  by (simp add: post_dreams_def getActiveSubscription_def ex_db_def ex_db1_def qualifying_def
      ex_sub_def findPlan_def ex_plan_def ex_request_def present_def findProfile_def
      ex_profile_def Let_def create_dream_tx_def findDream_def countContentLetters_def
      ex_seven_def isLeadingSurrogate_def isTrailingSurrogate_def audioMinutesRequested_def
      bump_usage_def ex_dream_def)

lemma ex_second_creation:
  "post_dreams ex_s2n ex_db1 2000 ''d2'' ''dreamer2'' (ex_request ex_three Undefined) =
     (Json 201 (ex_dream ''d2'' ''dreamer2'' ex_three 2000), ex_db2)"
  by (simp add: post_dreams_def getActiveSubscription_def ex_db_def ex_db1_def ex_db2_def
      qualifying_def ex_sub_def findPlan_def ex_plan_def ex_request_def present_def
      findProfile_def ex_profile_def Let_def create_dream_tx_def findDream_def
      countContentLetters_def ex_three_def isLeadingSurrogate_def isTrailingSurrogate_def
      audioMinutesRequested_def bump_usage_def ex_dream_def)

text \<open>
  Claim C2. For a requester who is neither admin nor super admin, whose effective
  subscription has a plan with a letter quota, a request with a title and a non-empty
  description whose number of code points, added to \<open>lettersUsed\<close>, exceeds the
  quota is answered 403 with code \<open>QUOTA_EXCEEDED\<close>, and the database is left as it
  was: no dream row, \<open>lettersUsed\<close> unchanged. And for every request whatsoever the
  handler either answers an error and leaves the database as it was, or answers 201 and
  the database afterwards is the one before with the new dream appended and with, in
  the row of the consulted subscription and in no other, \<open>lettersUsed\<close> raised by the
  number of code points of the description and \<open>audioMinutesUsed\<close> by the audio
  minutes requested: never the dream without the debit nor the debit without the dream.
\<close>

theorem C2_letter_quota_enforced:
  "(findProfile d userId = Some prof \<and> p_role prof \<noteq> Admin \<and> p_role prof \<noteq> SuperAdmin \<and>
    present (rq_title rq) \<and> rq_description rq = Some description \<and> description \<noteq> [] \<and>
    getActiveSubscription d now userId = Some (sub, Some pl) \<and> pl_letterQuota pl = Some q \<and>
    q < up_lettersUsed sub + int (length (array_from description))
    \<longrightarrow> post_dreams s2n d now newId userId rq = (ErrorJson 403 (Some ''QUOTA_EXCEEDED''), d))
   \<and> ((\<exists>st c. post_dreams s2n d now newId userId rq = (ErrorJson st c, d)) \<or>
      (\<exists>dream sub' pl'.
         post_dreams s2n d now newId userId rq =
           (Json 201 dream,
            d\<lparr>dreams := dreams d @ [dream],
              userPlans :=
                map (\<lambda>r. if up_id r = up_id sub'
                         then r\<lparr>up_lettersUsed :=
                                  up_lettersUsed r
                                  + int (length (array_from (the (rq_description rq)))),
                                up_audioMinutesUsed :=
                                  up_audioMinutesUsed r
                                  + (if gt_zero (audioMinutesRequested s2n (rq_audioMinutes rq))
                                     then the (int_increment
                                                 (audioMinutesRequested s2n (rq_audioMinutes rq)))
                                     else 0)\<rparr>
                         else r)
                    (userPlans d)\<rparr>)
         \<and> getActiveSubscription d now userId = Some (sub', Some pl')
         \<and> sub' \<in> set (userPlans d)
         \<and> d_dreamerId dream = userId \<and> d_description dream = the (rq_description rq)))"
proof (intro conjI impI)
  assume a: "findProfile d userId = Some prof \<and> p_role prof \<noteq> Admin \<and>
    p_role prof \<noteq> SuperAdmin \<and> present (rq_title rq) \<and> rq_description rq = Some description \<and>
    description \<noteq> [] \<and> getActiveSubscription d now userId = Some (sub, Some pl) \<and>
    pl_letterQuota pl = Some q \<and> q < up_lettersUsed sub + int (length (array_from description))"
  then have pres: "present (rq_description rq)"
    and cnt: "countContentLetters (the (rq_description rq)) = length (array_from description)"
    by (simp_all add: present_def countContentLetters_def)
  from a pres cnt show "post_dreams s2n d now newId userId rq =
      (ErrorJson 403 (Some ''QUOTA_EXCEEDED''), d)"
    by (simp add: post_dreams_def Let_def)
next
  let ?audio = "if gt_zero (audioMinutesRequested s2n (rq_audioMinutes rq))
                then the (int_increment (audioMinutesRequested s2n (rq_audioMinutes rq)))
                else 0"
  let ?ok = "\<lambda>dream sub'.
      post_dreams s2n d now newId userId rq =
        (Json 201 dream,
         d\<lparr>dreams := dreams d @ [dream],
           userPlans :=
             map (\<lambda>r. if up_id r = up_id sub'
                      then r\<lparr>up_lettersUsed :=
                               up_lettersUsed r
                               + int (length (array_from (the (rq_description rq)))),
                             up_audioMinutesUsed := up_audioMinutesUsed r + ?audio\<rparr>
                      else r)
                 (userPlans d)\<rparr>)"
  from post_dreams_outcome [of s2n d now newId userId rq]
  have "(\<exists>st c. post_dreams s2n d now newId userId rq = (ErrorJson st c, d)) \<or>
      (\<exists>dream sub' pl'. ?ok dream sub'
         \<and> getActiveSubscription d now userId = Some (sub', Some pl')
         \<and> sub' \<in> set (userPlans d)
         \<and> d_dreamerId dream = userId \<and> d_description dream = the (rq_description rq))"
  proof (elim disjE exE conjE)
    fix st c
    assume "post_dreams s2n d now newId userId rq = (ErrorJson st c, d)"
    then show ?thesis by blast
  next
    fix dream sub' pl' prof'
    assume ok: "post_dreams s2n d now newId userId rq =
        (Json 201 dream,
         d\<lparr>dreams := dreams d @ [dream],
           userPlans :=
             map (bump_usage (up_id sub') (int (countContentLetters (the (rq_description rq))))
                    (if gt_zero (audioMinutesRequested s2n (rq_audioMinutes rq))
                     then the (int_increment (audioMinutesRequested s2n (rq_audioMinutes rq)))
                     else 0))
                 (userPlans d)\<rparr>)"
      and g: "getActiveSubscription d now userId = Some (sub', Some pl')"
      and pres: "present (rq_description rq)"
      and dr: "d_dreamerId dream = userId" "d_description dream = the (rq_description rq)"
    from pres have cnt: "countContentLetters (the (rq_description rq))
                           = length (array_from (the (rq_description rq)))"
      by (simp add: present_def countContentLetters_def)
    have row: "bump_usage sid letters audio =
                 (\<lambda>r. if up_id r = sid
                      then r\<lparr>up_lettersUsed := up_lettersUsed r + letters,
                             up_audioMinutesUsed := up_audioMinutesUsed r + audio\<rparr>
                      else r)" for sid letters audio
      by (rule ext) (simp add: bump_usage_def)
    from ok have ok': "?ok dream sub'"
      by (simp only: row cnt)
    from getActiveSubscription_Some [OF g] have "sub' \<in> set (userPlans d)" by simp
    with ok' g dr show ?thesis by blast
  qed
  then show "(\<exists>st c. post_dreams s2n d now newId userId rq = (ErrorJson st c, d)) \<or>
      (\<exists>dream sub' pl'.
         post_dreams s2n d now newId userId rq =
           (Json 201 dream,
            d\<lparr>dreams := dreams d @ [dream],
              userPlans :=
                map (\<lambda>r. if up_id r = up_id sub'
                         then r\<lparr>up_lettersUsed :=
                                  up_lettersUsed r
                                  + int (length (array_from (the (rq_description rq)))),
                                up_audioMinutesUsed :=
                                  up_audioMinutesUsed r
                                  + (if gt_zero (audioMinutesRequested s2n (rq_audioMinutes rq))
                                     then the (int_increment
                                                 (audioMinutesRequested s2n (rq_audioMinutes rq)))
                                     else 0)\<rparr>
                         else r)
                    (userPlans d)\<rparr>)
         \<and> getActiveSubscription d now userId = Some (sub', Some pl')
         \<and> sub' \<in> set (userPlans d)
         \<and> d_dreamerId dream = userId \<and> d_description dream = the (rq_description rq))"
    by simp
qed

text \<open>
  The scenario of the specification: with a letter quota of 10, a description of seven
  code points is accepted and \<open>lettersUsed\<close> becomes 7; one of three more is accepted
  and \<open>lettersUsed\<close>, read off the statement above, goes from 7 to 10; one of five
  instead of it is rejected with \<open>QUOTA_EXCEEDED\<close> and \<open>lettersUsed\<close> stays 7.
\<close>

theorem C2_letter_quota_enforced_witness:
  "post_dreams ex_s2n ex_db 1000 ''d1'' ''dreamer2'' (ex_request ex_seven Undefined) =
     (Json 201 (ex_dream ''d1'' ''dreamer2'' ex_seven 1000), ex_db1)
   \<and> map up_lettersUsed (userPlans ex_db1) = [0, 0, 0, 7]
   \<and> length (array_from ex_five) = 5
   \<and> post_dreams ex_s2n ex_db1 2000 ''d2'' ''dreamer2'' (ex_request ex_five Undefined) =
       (ErrorJson 403 (Some ''QUOTA_EXCEEDED''), ex_db1)
   \<and> length (array_from ex_three) = 3
   \<and> post_dreams ex_s2n ex_db1 2000 ''d2'' ''dreamer2'' (ex_request ex_three Undefined) =
       (Json 201 (ex_dream ''d2'' ''dreamer2'' ex_three 2000), ex_db2)
   \<and> map up_lettersUsed (userPlans ex_db2) = [0, 0, 0, 7 + 3]
   \<and> map d_id (dreams ex_db2) = [''d1'', ''d2'']"
proof -
  let ?sub = "(ex_sub ''s4'' ''dreamer2'' ''plan1'' 300 (Some 5000) True)\<lparr>up_lettersUsed := 7\<rparr>"
  have p: "findProfile ex_db1 ''dreamer2'' = Some (ex_profile ''dreamer2'' Dreamer)"
    by (simp add: findProfile_def ex_db1_def ex_db_def ex_profile_def)
  have r: "p_role (ex_profile ''dreamer2'' Dreamer) \<noteq> Admin"
      "p_role (ex_profile ''dreamer2'' Dreamer) \<noteq> SuperAdmin"
    by (simp_all add: ex_profile_def)
  have v: "present (rq_title (ex_request ex_five Undefined))"
      "rq_description (ex_request ex_five Undefined) = Some ex_five" "ex_five \<noteq> []"
    by (simp_all add: ex_request_def present_def ex_five_def)
  have g: "getActiveSubscription ex_db1 2000 ''dreamer2'' = Some (?sub, Some ex_plan)"
    by (simp add: getActiveSubscription_def ex_db1_def ex_db_def qualifying_def ex_sub_def
        findPlan_def ex_plan_def)
  have q: "pl_letterQuota ex_plan = Some 10" by (simp add: ex_plan_def)
  have n: "length (array_from ex_five) = 5"
    by (simp add: ex_five_def isLeadingSurrogate_def isTrailingSurrogate_def)
  have x: "(10::int) < up_lettersUsed ?sub + int (length (array_from ex_five))"
    by (simp add: n)
  have u: "map up_lettersUsed (userPlans ex_db1) = [0, 0, 0, 7]"
    by (simp add: ex_db1_def ex_sub_def)
  from C2_letter_quota_enforced
         [of ex_db1 "''dreamer2''" "ex_profile ''dreamer2'' Dreamer" "ex_request ex_five Undefined"
             ex_five 2000 ?sub ex_plan 10 ex_s2n "''d2''"]
       p r v g q x
  have denied: "post_dreams ex_s2n ex_db1 2000 ''d2'' ''dreamer2'' (ex_request ex_five Undefined) =
       (ErrorJson 403 (Some ''QUOTA_EXCEEDED''), ex_db1)"
    by blast
  have m: "length (array_from ex_three) = 3"
    by (simp add: ex_three_def isLeadingSurrogate_def isTrailingSurrogate_def)
  have t: "the (rq_description (ex_request ex_three Undefined)) = ex_three"
    "(if gt_zero (audioMinutesRequested ex_s2n (rq_audioMinutes (ex_request ex_three Undefined)))
      then the (int_increment
                  (audioMinutesRequested ex_s2n (rq_audioMinutes (ex_request ex_three Undefined))))
      else 0) = (0::int)"
    by (simp_all add: ex_request_def audioMinutesRequested_def)
  from C2_letter_quota_enforced
         [of ex_db1 "''dreamer2''" "ex_profile ''dreamer2'' Dreamer" "ex_request ex_three Undefined"
             ex_three 2000 ?sub ex_plan 10 ex_s2n "''d2''"]
  have "(\<exists>st c. post_dreams ex_s2n ex_db1 2000 ''d2'' ''dreamer2'' (ex_request ex_three Undefined)
                  = (ErrorJson st c, ex_db1)) \<or>
      (\<exists>dream sub' pl'.
         post_dreams ex_s2n ex_db1 2000 ''d2'' ''dreamer2'' (ex_request ex_three Undefined) =
           (Json 201 dream,
            ex_db1\<lparr>dreams := dreams ex_db1 @ [dream],
              userPlans :=
                map (\<lambda>r. if up_id r = up_id sub'
                         then r\<lparr>up_lettersUsed := up_lettersUsed r + int (length (array_from ex_three)),
                                up_audioMinutesUsed := up_audioMinutesUsed r + 0\<rparr>
                         else r)
                    (userPlans ex_db1)\<rparr>)
         \<and> getActiveSubscription ex_db1 2000 ''dreamer2'' = Some (sub', Some pl'))"
    unfolding t by blast
  moreover
  have second: "post_dreams ex_s2n ex_db1 2000 ''d2'' ''dreamer2'' (ex_request ex_three Undefined) =
       (Json 201 (ex_dream ''d2'' ''dreamer2'' ex_three 2000), ex_db2)"
    by (simp add: post_dreams_def getActiveSubscription_def ex_db_def ex_db1_def ex_db2_def
        qualifying_def ex_sub_def findPlan_def ex_plan_def ex_request_def present_def
        findProfile_def ex_profile_def Let_def create_dream_tx_def findDream_def
        countContentLetters_def ex_three_def isLeadingSurrogate_def isTrailingSurrogate_def
        audioMinutesRequested_def bump_usage_def ex_dream_def)
  ultimately obtain dream where rows: "ex_db2 =
            ex_db1\<lparr>dreams := dreams ex_db1 @ [dream],
              userPlans :=
                map (\<lambda>r. if up_id r = up_id ?sub
                         then r\<lparr>up_lettersUsed := up_lettersUsed r + int (length (array_from ex_three)),
                                up_audioMinutesUsed := up_audioMinutesUsed r + 0\<rparr>
                         else r)
                    (userPlans ex_db1)\<rparr>"
    and dream: "dream = ex_dream ''d2'' ''dreamer2'' ex_three 2000"
    unfolding g by auto
  have "userPlans ex_db2 =
          map (\<lambda>r. if up_id r = up_id ?sub
                   then r\<lparr>up_lettersUsed := up_lettersUsed r + int (length (array_from ex_three)),
                          up_audioMinutesUsed := up_audioMinutesUsed r + 0\<rparr>
                   else r)
              (userPlans ex_db1)"
    by (subst rows) simp
  then have w: "map up_lettersUsed (userPlans ex_db2) = [0, 0, 0, 7 + 3]"
    by (simp add: m ex_db1_def ex_sub_def)
  have i: "map d_id (dreams ex_db2) = [''d1'', ''d2'']"
    by (simp add: ex_db2_def ex_dream_def)
  from ex_first_creation u n denied m second w i show ?thesis by simp
qed

section \<open>Letters are code points\<close>

lemma leading_iff:
  "n < 65536 \<Longrightarrow> isLeadingSurrogate (of_nat n) = (0xD800 \<le> n \<and> n \<le> 0xDBFF)"
  by (simp add: isLeadingSurrogate_def word_le_nat_alt unat_of_nat)

lemma trailing_iff:
  "n < 65536 \<Longrightarrow> isTrailingSurrogate (of_nat n) = (0xDC00 \<le> n \<and> n \<le> 0xDFFF)"
  by (simp add: isTrailingSurrogate_def word_le_nat_alt unat_of_nat)

lemma bmp_not_leading:
  assumes "is_scalar_value c" "c < 0x10000"
  shows "\<not> isLeadingSurrogate (of_nat c)"
  using assms
  by (auto simp add: is_scalar_value_def leading_iff)

lemma supplementary_pair:
  assumes "is_scalar_value c" "\<not> c < 0x10000"
  shows "isLeadingSurrogate (of_nat (0xD800 + (c - 0x10000) div 0x400))
       \<and> isTrailingSurrogate (of_nat (0xDC00 + (c - 0x10000) mod 0x400))"
proof -
  define h where "h = 0xD800 + (c - 0x10000) div 0x400"
  define l where "l = 0xDC00 + (c - 0x10000) mod 0x400"
  from assms have "(c - 0x10000) div 0x400 < 0x400"
    by (simp add: is_scalar_value_def)
  then have h: "h < 65536" "0xD800 \<le> h" "h \<le> 0xDBFF"
    by (simp_all add: h_def)
  have "(c - 0x10000) mod 0x400 < 0x400" by simp
  then have l: "l < 65536" "0xDC00 \<le> l" "l \<le> 0xDFFF"
    by (simp_all add: l_def)
  from h l have "isLeadingSurrogate (of_nat h) \<and> isTrailingSurrogate (of_nat l)"
    by (simp add: leading_iff trailing_iff)
  then show ?thesis unfolding h_def l_def .
qed

lemma array_from_units:
  assumes "is_scalar_value c"
  shows "array_from (utf16_units c @ rest) = utf16_units c # array_from rest"
proof (cases "c < 0x10000")
  case True
  with assms have "\<not> isLeadingSurrogate (of_nat c)" by (rule bmp_not_leading)
  with True show ?thesis by (cases rest) (simp_all add: utf16_units_def)
next
  case False
  with supplementary_pair [OF assms False] show ?thesis by (simp add: utf16_units_def)
qed

lemma array_from_utf16:
  "list_all is_scalar_value cps \<Longrightarrow> array_from (utf16 cps) = map utf16_units cps"
  by (induction cps) (simp_all add: utf16_def array_from_units)

lemma utf16_empty: "(utf16 cps = []) = (cps = [])"
proof (cases cps)
  case Nil then show ?thesis by (simp add: utf16_def)
next
  case (Cons c cs) then show ?thesis by (simp add: utf16_def utf16_units_def)
qed

lemma countContentLetters_utf16:
  "list_all is_scalar_value cps \<Longrightarrow> countContentLetters (utf16 cps) = length cps"
  by (simp add: countContentLetters_def array_from_utf16 utf16_empty)

section \<open>Usage after a sequence of creations\<close>

lemma find_map_bump_usage:
  "find (\<lambda>r. up_id r = sid) (map (bump_usage sid' l a) rows) =
     map_option (bump_usage sid' l a) (find (\<lambda>r. up_id r = sid) rows)"
  by (induction rows) (simp_all add: bump_usage_def)

lemma up_id_bump_usage: "up_id (bump_usage sid l a r) = up_id r"
  by (simp add: bump_usage_def)

lemma distinct_find_row:
  "distinct (map up_id rows) \<Longrightarrow> s \<in> set rows \<Longrightarrow> find (\<lambda>r. up_id r = up_id s) rows = Some s"
  by (induction rows) force+

lemma post_dreams_step:
  assumes st: "fst (post_dreams s2n d now newId userId rq) = Json 201 dream"
      and g: "getActiveSubscription d now userId = Some (sub, plo)"
      and dist: "distinct (map up_id (userPlans d))"
      and f: "find (\<lambda>r. up_id r = up_id sub) (userPlans d) = Some r0"
  shows "\<exists>r1. find (\<lambda>r. up_id r = up_id sub) (userPlans (snd (post_dreams s2n d now newId userId rq)))
                = Some r1
          \<and> up_lettersUsed r1 = up_lettersUsed r0 + int (code_points_submitted (now, newId, userId, rq))
          \<and> up_planId r1 = up_planId r0
          \<and> plans (snd (post_dreams s2n d now newId userId rq)) = plans d
          \<and> map up_id (userPlans (snd (post_dreams s2n d now newId userId rq))) = map up_id (userPlans d)
          \<and> (\<forall>pl q. findPlan d (up_planId r0) = Some pl \<and> pl_letterQuota pl = Some q
                \<longrightarrow> up_lettersUsed r1 \<le> q)"
proof -
  let ?letters = "int (countContentLetters (the (rq_description rq)))"
  let ?audio = "if gt_zero (audioMinutesRequested s2n (rq_audioMinutes rq))
                then the (int_increment (audioMinutesRequested s2n (rq_audioMinutes rq))) else 0"
  from post_dreams_outcome [of s2n d now newId userId rq] st g
  obtain pl where post: "snd (post_dreams s2n d now newId userId rq) =
        d\<lparr>dreams := dreams d @ [dream],
          userPlans := map (bump_usage (up_id sub) ?letters ?audio) (userPlans d)\<rparr>"
    and plo: "plo = Some pl"
    and pres: "present (rq_description rq)"
    and quota: "case pl_letterQuota pl of None \<Rightarrow> True
                | Some q \<Rightarrow> up_lettersUsed sub + ?letters \<le> q"
    by auto
  from getActiveSubscription_Some [OF g]
  have mem: "sub \<in> set (userPlans d)" and plan: "plo = findPlan d (up_planId sub)"
    by simp_all
  from distinct_find_row [OF dist mem] f have r0: "r0 = sub" by simp
  from pres obtain s where s: "rq_description rq = Some s" "s \<noteq> []"
    by (cases "rq_description rq") (simp_all add: present_def)
  let ?r1 = "bump_usage (up_id sub) ?letters ?audio r0"
  have "find (\<lambda>r. up_id r = up_id sub) (userPlans (snd (post_dreams s2n d now newId userId rq)))
          = Some ?r1"
    by (simp add: post find_map_bump_usage f)
  moreover have "up_lettersUsed ?r1 = up_lettersUsed r0 + int (code_points_submitted (now, newId, userId, rq))"
    using s by (simp add: bump_usage_def r0 countContentLetters_def)
  moreover have "up_planId ?r1 = up_planId r0"
    by (simp add: bump_usage_def)
  moreover have "plans (snd (post_dreams s2n d now newId userId rq)) = plans d"
    by (simp add: post)
  moreover have "map up_id (userPlans (snd (post_dreams s2n d now newId userId rq))) = map up_id (userPlans d)"
    by (simp add: post up_id_bump_usage)
  moreover have "\<forall>pl' q. findPlan d (up_planId r0) = Some pl' \<and> pl_letterQuota pl' = Some q
                \<longrightarrow> up_lettersUsed ?r1 \<le> q"
    using quota plan plo r0 by (auto simp add: bump_usage_def)
  ultimately show ?thesis by blast
qed

lemma created_under_sum:
  assumes "created_under s2n sid d steps"
      and "distinct (map up_id (userPlans d))"
      and "find (\<lambda>r. up_id r = sid) (userPlans d) = Some r0"
  shows "\<exists>r. find (\<lambda>r. up_id r = sid) (userPlans (create_dreams s2n d steps)) = Some r
           \<and> up_lettersUsed r = up_lettersUsed r0 + int (sum_list (map code_points_submitted steps))
           \<and> up_planId r = up_planId r0
           \<and> plans (create_dreams s2n d steps) = plans d
           \<and> (\<forall>pl q. findPlan d (up_planId r0) = Some pl \<and> pl_letterQuota pl = Some q \<and>
                      (steps \<noteq> [] \<or> up_lettersUsed r0 \<le> q)
                 \<longrightarrow> up_lettersUsed r \<le> q)"
  using assms
proof (induction steps arbitrary: d r0)
  case Nil
  then show ?case by simp
next
  case (Cons c rest)
  obtain now newId userId rq where c: "c = (now, newId, userId, rq)" by (cases c)
  let ?d1 = "snd (post_dreams s2n d now newId userId rq)"
  from Cons.prems(1) c obtain sub plo dream where
        g: "getActiveSubscription d now userId = Some (sub, plo)" and sid: "up_id sub = sid"
    and st: "fst (post_dreams s2n d now newId userId rq) = Json 201 dream"
    and rest: "created_under s2n sid ?d1 rest"
    by (auto split: option.splits response.splits)
  from Cons.prems(3) sid have f: "find (\<lambda>r. up_id r = up_id sub) (userPlans d) = Some r0"
    by simp
  from post_dreams_step [OF st g Cons.prems(2) f] sid obtain r1 where
        f1: "find (\<lambda>r. up_id r = sid) (userPlans ?d1) = Some r1"
    and l1: "up_lettersUsed r1 = up_lettersUsed r0 + int (code_points_submitted (now, newId, userId, rq))"
    and p1: "up_planId r1 = up_planId r0"
    and pl1: "plans ?d1 = plans d"
    and ids: "map up_id (userPlans ?d1) = map up_id (userPlans d)"
    and q1: "\<forall>pl q. findPlan d (up_planId r0) = Some pl \<and> pl_letterQuota pl = Some q
                \<longrightarrow> up_lettersUsed r1 \<le> q"
    by auto
  from ids Cons.prems(2) have dist1: "distinct (map up_id (userPlans ?d1))" by simp
  from Cons.IH [OF rest dist1 f1] obtain r where
        fr: "find (\<lambda>r. up_id r = sid) (userPlans (create_dreams s2n ?d1 rest)) = Some r"
    and lr: "up_lettersUsed r = up_lettersUsed r1 + int (sum_list (map code_points_submitted rest))"
    and pr: "up_planId r = up_planId r1"
    and plr: "plans (create_dreams s2n ?d1 rest) = plans ?d1"
    and qr: "\<forall>pl q. findPlan ?d1 (up_planId r1) = Some pl \<and> pl_letterQuota pl = Some q \<and>
                      (rest \<noteq> [] \<or> up_lettersUsed r1 \<le> q)
                 \<longrightarrow> up_lettersUsed r \<le> q"
    by auto
  have fp: "findPlan ?d1 (up_planId r1) = findPlan d (up_planId r0)"
    by (simp add: findPlan_def pl1 p1)
  have "find (\<lambda>r. up_id r = sid) (userPlans (create_dreams s2n d (c # rest))) = Some r"
    by (simp add: c fr)
  moreover have "up_lettersUsed r = up_lettersUsed r0 + int (sum_list (map code_points_submitted (c # rest)))"
    by (simp add: c lr l1)
  moreover have "up_planId r = up_planId r0" by (simp add: pr p1)
  moreover have "plans (create_dreams s2n d (c # rest)) = plans d" by (simp add: c plr pl1)
  moreover have "\<forall>pl q. findPlan d (up_planId r0) = Some pl \<and> pl_letterQuota pl = Some q \<and>
                      (c # rest \<noteq> [] \<or> up_lettersUsed r0 \<le> q)
                 \<longrightarrow> up_lettersUsed r \<le> q"
    using q1 qr fp by auto
  ultimately show ?case by blast
qed

lemma ex_active_s4:
  "getActiveSubscription ex_db 1000 ''dreamer2'' =
     Some (ex_sub ''s4'' ''dreamer2'' ''plan1'' 300 (Some 5000) True, Some ex_plan)"
  "getActiveSubscription ex_db1 2000 ''dreamer2'' =
     Some ((ex_sub ''s4'' ''dreamer2'' ''plan1'' 300 (Some 5000) True)\<lparr>up_lettersUsed := 7\<rparr>, Some ex_plan)"
  by (simp_all add: getActiveSubscription_def ex_db_def ex_db1_def qualifying_def ex_sub_def
      findPlan_def ex_plan_def)

text \<open>
  Claim C3. Take any sequence of dream creations that were all answered 201 and all
  had the same subscription as the effective one, on a database whose subscription ids
  are distinct. Afterwards \<open>lettersUsed\<close> of that subscription is its value before plus
  the sum, over the creations, of the number of code points of the description (the
  elements \<open>Array.from\<close> yields); and when the plan of the subscription sets a letter
  quota, \<open>lettersUsed\<close> does not exceed it (after at least one creation, or when it
  did not exceed it before). The count is in code points and not in bytes: for every
  sequence of Unicode scalar values, the letter count of its UTF-16 string is the
  length of the sequence.
\<close>

theorem C3_letters_used_counts_code_points:
  "(created_under s2n sid d steps \<and> distinct (map up_id (userPlans d)) \<and>
    find (\<lambda>r. up_id r = sid) (userPlans d) = Some r0
    \<longrightarrow> (\<exists>r. find (\<lambda>r. up_id r = sid) (userPlans (create_dreams s2n d steps)) = Some r
            \<and> up_lettersUsed r = up_lettersUsed r0 + int (sum_list (map code_points_submitted steps))
            \<and> (\<forall>pl q. findPlan d (up_planId r0) = Some pl \<and> pl_letterQuota pl = Some q \<and>
                       (steps \<noteq> [] \<or> up_lettersUsed r0 \<le> q)
                  \<longrightarrow> up_lettersUsed r \<le> q)))
   \<and> (list_all is_scalar_value cps \<longrightarrow> countContentLetters (utf16 cps) = length cps)"
proof (intro conjI impI)
  assume a: "created_under s2n sid d steps \<and> distinct (map up_id (userPlans d)) \<and>
    find (\<lambda>r. up_id r = sid) (userPlans d) = Some r0"
  then have 1: "created_under s2n sid d steps"
    and 2: "distinct (map up_id (userPlans d))"
    and 3: "find (\<lambda>r. up_id r = sid) (userPlans d) = Some r0"
    by simp_all
  from created_under_sum [OF 1 2 3]
  show "\<exists>r. find (\<lambda>r. up_id r = sid) (userPlans (create_dreams s2n d steps)) = Some r
            \<and> up_lettersUsed r = up_lettersUsed r0 + int (sum_list (map code_points_submitted steps))
            \<and> (\<forall>pl q. findPlan d (up_planId r0) = Some pl \<and> pl_letterQuota pl = Some q \<and>
                       (steps \<noteq> [] \<or> up_lettersUsed r0 \<le> q)
                  \<longrightarrow> up_lettersUsed r \<le> q)"
    by blast
next
  assume "list_all is_scalar_value cps"
  then show "countContentLetters (utf16 cps) = length cps"
    by (rule countContentLetters_utf16)
qed

text \<open>
  Two creations under subscription \<open>s4\<close>, of seven and of three code points, bring
  \<open>lettersUsed\<close> from 0 to 10, the quota. The Arabic letter U+0628 and the character
  U+1F319 are two letters, three UTF-16 code units and six UTF-8 bytes.
\<close>

theorem C3_letters_used_counts_code_points_witness:
  "created_under ex_s2n ''s4'' ex_db ex_steps
   \<and> sum_list (map code_points_submitted ex_steps) = 10
   \<and> (\<exists>r. find (\<lambda>r. up_id r = ''s4'') (userPlans (create_dreams ex_s2n ex_db ex_steps)) = Some r
          \<and> up_lettersUsed r = 10)
   \<and> pl_letterQuota ex_plan = Some 10
   \<and> utf16 [0x628, 0x1F319] = [0x628, 0xD83C, 0xDF19]
   \<and> countContentLetters (utf16 [0x628, 0x1F319]) = 2
   \<and> sum_list (map utf8_length [0x628, 0x1F319]) = 6"
proof -
  have cu: "created_under ex_s2n ''s4'' ex_db ex_steps"
    by (simp add: ex_steps_def ex_first_creation ex_second_creation ex_active_s4 ex_sub_def)
  have di: "distinct (map up_id (userPlans ex_db))"
    by (simp add: ex_db_def ex_sub_def)
  have fi: "find (\<lambda>r. up_id r = ''s4'') (userPlans ex_db) =
      Some (ex_sub ''s4'' ''dreamer2'' ''plan1'' 300 (Some 5000) True)"
    by (simp add: ex_db_def ex_sub_def)
  have su: "sum_list (map code_points_submitted ex_steps) = 10"
    by (simp add: ex_steps_def ex_request_def ex_seven_def ex_three_def
        isLeadingSurrogate_def isTrailingSurrogate_def)
  have sc: "list_all is_scalar_value [0x628, 0x1F319]"
    by (simp add: is_scalar_value_def)
  from C3_letters_used_counts_code_points
         [of ex_s2n "''s4''" ex_db ex_steps "ex_sub ''s4'' ''dreamer2'' ''plan1'' 300 (Some 5000) True"
             "[0x628, 0x1F319]"]
       cu di fi sc
  have main: "\<exists>r. find (\<lambda>r. up_id r = ''s4'') (userPlans (create_dreams ex_s2n ex_db ex_steps)) = Some r
          \<and> up_lettersUsed r = up_lettersUsed (ex_sub ''s4'' ''dreamer2'' ''plan1'' 300 (Some 5000) True)
                + int (sum_list (map code_points_submitted ex_steps))"
    and cp: "countContentLetters (utf16 [0x628, 0x1F319]) = 2"
    by auto
  from main su have r: "\<exists>r. find (\<lambda>r. up_id r = ''s4'') (userPlans (create_dreams ex_s2n ex_db ex_steps)) = Some r
          \<and> up_lettersUsed r = 10"
    by (simp add: ex_sub_def)
  have q: "pl_letterQuota ex_plan = Some 10" by (simp add: ex_plan_def)
  have enc: "utf16 [0x628, 0x1F319] = [0x628, 0xD83C, 0xDF19]"
    by (simp add: utf16_def utf16_units_def)
  have u8: "sum_list (map utf8_length [0x628, 0x1F319]) = 6"
    by (simp add: utf8_length_def)
  from cu su r q enc cp u8 show ?thesis by simp
qed

section \<open>Audio minutes\<close>

lemma audioMinutesRequested_number:
  "audioMinutesRequested s2n (Num (Fin x)) = Fin (of_int \<lceil>x\<rceil>)"
  by (simp add: audioMinutesRequested_def)

lemma audioMinutesRequested_string:
  "s \<noteq> [] \<Longrightarrow> s2n s = Fin x \<Longrightarrow> audioMinutesRequested s2n (Str s) = Fin (of_int \<lceil>x\<rceil>)"
  by (simp add: audioMinutesRequested_def)

lemma post_dreams_audio_denial:
  assumes "fst (post_dreams s2n d now newId userId rq) = ErrorJson st (Some ''AUDIO_QUOTA_EXCEEDED'')"
  shows "gt_zero (audioMinutesRequested s2n (rq_audioMinutes rq))"
proof (rule ccontr)
  assume n: "\<not> gt_zero (audioMinutesRequested s2n (rq_audioMinutes rq))"
  have "fst (post_dreams s2n d now newId userId rq) \<noteq> ErrorJson st (Some ''AUDIO_QUOTA_EXCEEDED'')"
    using n
    by (simp add: post_dreams_def Let_def split: option.splits sum.splits prod.splits)
  with assms show False by simp
qed

lemma post_dreams_audio_exceeded:
  assumes "findProfile d userId = Some prof" "p_role prof \<noteq> Admin" "p_role prof \<noteq> SuperAdmin"
    and "present (rq_title rq)" "present (rq_description rq)"
    and "getActiveSubscription d now userId = Some (sub, Some pl)"
    and "case pl_letterQuota pl of None \<Rightarrow> True
         | Some q \<Rightarrow> up_lettersUsed sub + int (countContentLetters (the (rq_description rq))) \<le> q"
    and "audioMinutesRequested s2n (rq_audioMinutes rq) = Fin (of_int n)" "0 < n"
    and "pl_audioMinutesQuota pl = Some q" "q < up_audioMinutesUsed sub + n"
  shows "post_dreams s2n d now newId userId rq = (ErrorJson 403 (Some ''AUDIO_QUOTA_EXCEEDED''), d)"
proof -
  from assms(11) have "(of_int q :: rat) < of_int (up_audioMinutesUsed sub + n)"
    by (simp only: of_int_less_iff)
  then have ex: "sum_exceeds (up_audioMinutesUsed sub) (Fin (of_int n)) q"
    by simp
  from assms(7) have le: "\<not> (case pl_letterQuota pl of None \<Rightarrow> False
         | Some q \<Rightarrow> q < up_lettersUsed sub + int (countContentLetters (the (rq_description rq))))"
    by (simp split: option.splits)
  from assms(1-6,8-10) ex le show ?thesis
    by (simp add: post_dreams_def Let_def)
qed

lemma post_dreams_audio_debit:
  assumes ok: "post_dreams s2n d now newId userId rq = (Json 201 dream, d')"
    and req: "audioMinutesRequested s2n (rq_audioMinutes rq) = Fin (of_int n)" "0 < n"
  shows "\<exists>sub pl. getActiveSubscription d now userId = Some (sub, Some pl) \<and>
           userPlans d' =
             map (bump_usage (up_id sub) (int (countContentLetters (the (rq_description rq)))) n)
                 (userPlans d) \<and>
           (case pl_audioMinutesQuota pl of None \<Rightarrow> True
            | Some q \<Rightarrow> up_audioMinutesUsed sub + n \<le> q)"
proof -
  from post_dreams_outcome [of s2n d now newId userId rq]
  show ?thesis
  proof (elim disjE exE conjE)
    fix st c assume "post_dreams s2n d now newId userId rq = (ErrorJson st c, d)"
    with ok show ?thesis by simp
  next
    fix dream0 sub pl prof
    assume post: "post_dreams s2n d now newId userId rq =
        (Json 201 dream0,
         d\<lparr>dreams := dreams d @ [dream0],
           userPlans :=
             map (bump_usage (up_id sub) (int (countContentLetters (the (rq_description rq))))
                    (if gt_zero (audioMinutesRequested s2n (rq_audioMinutes rq))
                     then the (int_increment (audioMinutesRequested s2n (rq_audioMinutes rq)))
                     else 0))
                 (userPlans d)\<rparr>)"
      and g: "getActiveSubscription d now userId = Some (sub, Some pl)"
      and quota: "gt_zero (audioMinutesRequested s2n (rq_audioMinutes rq)) \<longrightarrow>
           (case pl_audioMinutesQuota pl of None \<Rightarrow> True
            | Some q \<Rightarrow> \<not> sum_exceeds (up_audioMinutesUsed sub)
                          (audioMinutesRequested s2n (rq_audioMinutes rq)) q)"
    from post ok req have rows: "userPlans d' =
             map (bump_usage (up_id sub) (int (countContentLetters (the (rq_description rq)))) n)
                 (userPlans d)"
      by auto
    have "case pl_audioMinutesQuota pl of None \<Rightarrow> True
            | Some q \<Rightarrow> up_audioMinutesUsed sub + n \<le> q"
    proof (cases "pl_audioMinutesQuota pl")
      case None then show ?thesis by simp
    next
      case (Some q)
      with quota req have "\<not> (of_int q :: rat) < of_int (up_audioMinutesUsed sub + n)" by simp
      then have "\<not> q < up_audioMinutesUsed sub + n" by (simp del: of_int_add)
      with Some show ?thesis by simp
    qed
    with g rows show ?thesis by blast
  qed
qed

lemma post_dreams_no_audio:
  assumes "\<not> gt_zero (audioMinutesRequested s2n (rq_audioMinutes rq))"
  shows "map up_audioMinutesUsed (userPlans (snd (post_dreams s2n d now newId userId rq)))
           = map up_audioMinutesUsed (userPlans d)"
proof -
  from post_dreams_outcome [of s2n d now newId userId rq]
  show ?thesis
  proof (elim disjE exE conjE)
    fix st c assume "post_dreams s2n d now newId userId rq = (ErrorJson st c, d)"
    then show ?thesis by simp
  next
    fix dream sub pl prof
    assume "post_dreams s2n d now newId userId rq =
        (Json 201 dream,
         d\<lparr>dreams := dreams d @ [dream],
           userPlans :=
             map (bump_usage (up_id sub) (int (countContentLetters (the (rq_description rq))))
                    (if gt_zero (audioMinutesRequested s2n (rq_audioMinutes rq))
                     then the (int_increment (audioMinutesRequested s2n (rq_audioMinutes rq)))
                     else 0))
                 (userPlans d)\<rparr>)"
    with assms show ?thesis by (simp add: bump_usage_def)
  qed
qed

text \<open>
  Claim C10. The audio minutes a request asks for are \<open>Math.ceil(Number(audioMinutes))\<close>:
  a number \<open>x\<close> gives the integer \<open>\<lceil>x\<rceil>\<close>, and so does a non-empty string that reads
  as \<open>x\<close>. That rounded value \<open>n\<close>, when positive, is what the quota comparison uses
  (a requester past the letter check is denied with \<open>AUDIO_QUOTA_EXCEEDED\<close> when
  \<open>audioMinutesUsed + n\<close> exceeds the plan's audio quota) and what a successful creation
  adds to \<open>audioMinutesUsed\<close> of the consulted subscription: the subscriptions
  afterwards are those before with, in the row of the consulted one and in no other,
  \<open>audioMinutesUsed\<close> raised by \<open>n\<close> (and \<open>lettersUsed\<close> by the letters of the
  description), and the raised value is within the quota. When the requested value
  is not positive (audioMinutes absent, null, zero, or a value that rounds to zero or
  below), no request is answered \<open>AUDIO_QUOTA_EXCEEDED\<close> and \<open>audioMinutesUsed\<close> of
  every subscription is what it was, also after a successful creation.
\<close>

theorem C10_audio_minutes_rounded_up:
  "audioMinutesRequested s2n (Num (Fin x)) = Fin (of_int \<lceil>x\<rceil>)
   \<and> (s \<noteq> [] \<and> s2n s = Fin x \<longrightarrow> audioMinutesRequested s2n (Str s) = Fin (of_int \<lceil>x\<rceil>))
   \<and> (findProfile d userId = Some prof \<and> p_role prof \<noteq> Admin \<and> p_role prof \<noteq> SuperAdmin \<and>
       present (rq_title rq) \<and> present (rq_description rq) \<and>
       getActiveSubscription d now userId = Some (sub, Some pl) \<and>
       (case pl_letterQuota pl of None \<Rightarrow> True
        | Some l \<Rightarrow> up_lettersUsed sub + int (countContentLetters (the (rq_description rq))) \<le> l) \<and>
       audioMinutesRequested s2n (rq_audioMinutes rq) = Fin (of_int n) \<and> 0 < n \<and>
       pl_audioMinutesQuota pl = Some q \<and> q < up_audioMinutesUsed sub + n
       \<longrightarrow> post_dreams s2n d now newId userId rq =
             (ErrorJson 403 (Some ''AUDIO_QUOTA_EXCEEDED''), d))
   \<and> (post_dreams s2n d now newId userId rq = (Json 201 dream, d') \<and>
       audioMinutesRequested s2n (rq_audioMinutes rq) = Fin (of_int n) \<and> 0 < n
       \<longrightarrow> (\<exists>sub' pl'. getActiveSubscription d now userId = Some (sub', Some pl') \<and>
              userPlans d' =
                map (\<lambda>r. if up_id r = up_id sub'
                         then r\<lparr>up_lettersUsed :=
                                  up_lettersUsed r
                                  + int (countContentLetters (the (rq_description rq))),
                                up_audioMinutesUsed := up_audioMinutesUsed r + n\<rparr>
                         else r)
                    (userPlans d) \<and>
              (case pl_audioMinutesQuota pl' of None \<Rightarrow> True
               | Some q' \<Rightarrow> up_audioMinutesUsed sub' + n \<le> q')))
   \<and> (\<not> gt_zero (audioMinutesRequested s2n (rq_audioMinutes rq))
       \<longrightarrow> (\<forall>st. fst (post_dreams s2n d now newId userId rq)
                     \<noteq> ErrorJson st (Some ''AUDIO_QUOTA_EXCEEDED'')) \<and>
            map up_audioMinutesUsed (userPlans (snd (post_dreams s2n d now newId userId rq)))
              = map up_audioMinutesUsed (userPlans d))
   \<and> \<not> gt_zero (audioMinutesRequested s2n Undefined)
   \<and> \<not> gt_zero (audioMinutesRequested s2n Null)
   \<and> (\<lceil>x\<rceil> \<le> 0 \<longrightarrow> \<not> gt_zero (audioMinutesRequested s2n (Num (Fin x))))
   \<and> (s2n s = Fin x \<and> \<lceil>x\<rceil> \<le> 0 \<longrightarrow> \<not> gt_zero (audioMinutesRequested s2n (Str s)))"
proof (intro conjI impI allI)
  show "audioMinutesRequested s2n (Num (Fin x)) = Fin (of_int \<lceil>x\<rceil>)"
    by (rule audioMinutesRequested_number)
next
  assume "s \<noteq> [] \<and> s2n s = Fin x"
  then show "audioMinutesRequested s2n (Str s) = Fin (of_int \<lceil>x\<rceil>)"
    by (simp add: audioMinutesRequested_string)
next
  assume a: "findProfile d userId = Some prof \<and> p_role prof \<noteq> Admin \<and> p_role prof \<noteq> SuperAdmin \<and>
       present (rq_title rq) \<and> present (rq_description rq) \<and>
       getActiveSubscription d now userId = Some (sub, Some pl) \<and>
       (case pl_letterQuota pl of None \<Rightarrow> True
        | Some l \<Rightarrow> up_lettersUsed sub + int (countContentLetters (the (rq_description rq))) \<le> l) \<and>
       audioMinutesRequested s2n (rq_audioMinutes rq) = Fin (of_int n) \<and> 0 < n \<and>
       pl_audioMinutesQuota pl = Some q \<and> q < up_audioMinutesUsed sub + n"
  then show "post_dreams s2n d now newId userId rq =
             (ErrorJson 403 (Some ''AUDIO_QUOTA_EXCEEDED''), d)"
    by (intro post_dreams_audio_exceeded [of d userId prof rq now sub pl s2n n q]) simp_all
next
  assume "post_dreams s2n d now newId userId rq = (Json 201 dream, d') \<and>
       audioMinutesRequested s2n (rq_audioMinutes rq) = Fin (of_int n) \<and> 0 < n"
  then have "\<exists>sub' pl'. getActiveSubscription d now userId = Some (sub', Some pl') \<and>
              userPlans d' =
                map (bump_usage (up_id sub')
                       (int (countContentLetters (the (rq_description rq)))) n)
                    (userPlans d) \<and>
              (case pl_audioMinutesQuota pl' of None \<Rightarrow> True
               | Some q' \<Rightarrow> up_audioMinutesUsed sub' + n \<le> q')"
    by (intro post_dreams_audio_debit [of s2n d now newId userId rq dream d' n]) simp_all
  moreover
  have "bump_usage sid letters audio =
          (\<lambda>r. if up_id r = sid
               then r\<lparr>up_lettersUsed := up_lettersUsed r + letters,
                      up_audioMinutesUsed := up_audioMinutesUsed r + audio\<rparr>
               else r)" for sid letters audio
    by (rule ext) (simp add: bump_usage_def)
  ultimately show "\<exists>sub' pl'. getActiveSubscription d now userId = Some (sub', Some pl') \<and>
              userPlans d' =
                map (\<lambda>r. if up_id r = up_id sub'
                         then r\<lparr>up_lettersUsed :=
                                  up_lettersUsed r
                                  + int (countContentLetters (the (rq_description rq))),
                                up_audioMinutesUsed := up_audioMinutesUsed r + n\<rparr>
                         else r)
                    (userPlans d) \<and>
              (case pl_audioMinutesQuota pl' of None \<Rightarrow> True
               | Some q' \<Rightarrow> up_audioMinutesUsed sub' + n \<le> q')"
    by simp
next
  fix st
  assume "\<not> gt_zero (audioMinutesRequested s2n (rq_audioMinutes rq))"
  then show "fst (post_dreams s2n d now newId userId rq)
                     \<noteq> ErrorJson st (Some ''AUDIO_QUOTA_EXCEEDED'')"
    using post_dreams_audio_denial [of s2n d now newId userId rq st] by blast
next
  assume "\<not> gt_zero (audioMinutesRequested s2n (rq_audioMinutes rq))"
  then show "map up_audioMinutesUsed (userPlans (snd (post_dreams s2n d now newId userId rq)))
              = map up_audioMinutesUsed (userPlans d)"
    by (rule post_dreams_no_audio)
next
  show "\<not> gt_zero (audioMinutesRequested s2n Undefined)"
    by (simp add: audioMinutesRequested_def)
next
  show "\<not> gt_zero (audioMinutesRequested s2n Null)"
    by (simp add: audioMinutesRequested_def)
next
  assume "\<lceil>x\<rceil> \<le> 0"
  then show "\<not> gt_zero (audioMinutesRequested s2n (Num (Fin x)))"
    by (simp add: audioMinutesRequested_number)
next
  assume "s2n s = Fin x \<and> \<lceil>x\<rceil> \<le> 0"
  then show "\<not> gt_zero (audioMinutesRequested s2n (Str s))"
    by (simp add: audioMinutesRequested_def)
qed

lemma ex_ceil: "\<lceil>5 / 2 :: rat\<rceil> = 3" "\<lceil>- (1 / 2) :: rat\<rceil> = 0"
  by (simp_all add: ceiling_eq_iff)

lemma ex_requested:
  "audioMinutesRequested ex_s2n (Num (Fin (5 / 2))) = Fin 3"
  "audioMinutesRequested ex_s2n (Str ex_two_and_a_half) = Fin 3"
  "audioMinutesRequested ex_s2n (Num (Fin (- (1 / 2)))) = Fin 0"
  by (simp_all add: audioMinutesRequested_def ex_s2n_def ex_two_and_a_half_def ex_ceil)

lemma ex_audio_creation:
  "post_dreams ex_s2n ex_db 1000 ''d1'' ''dreamer2'' (ex_request ex_three (Str ex_two_and_a_half)) =
     (Json 201 (ex_dream ''d1'' ''dreamer2'' ex_three 1000), ex_db3)"
  by (simp add: post_dreams_def getActiveSubscription_def ex_db_def ex_db3_def
      qualifying_def ex_sub_def findPlan_def ex_plan_def ex_request_def present_def
      findProfile_def ex_profile_def Let_def create_dream_tx_def findDream_def
      countContentLetters_def ex_three_def isLeadingSurrogate_def isTrailingSurrogate_def
      ex_requested bump_usage_def ex_dream_def)

lemma ex_no_audio_creation:
  "fst (post_dreams ex_s2n ex_db_audio 1000 ''d1'' ''dreamer2''
          (ex_request ex_three (Num (Fin (- (1 / 2)))))) =
     Json 201 (ex_dream ''d1'' ''dreamer2'' ex_three 1000)"
  by (simp add: post_dreams_def getActiveSubscription_def ex_db_def ex_db_audio_def
      qualifying_def ex_sub_def findPlan_def ex_plan_def ex_request_def present_def
      findProfile_def ex_profile_def Let_def create_dream_tx_def findDream_def
      countContentLetters_def ex_three_def isLeadingSurrogate_def isTrailingSurrogate_def
      ex_requested bump_usage_def ex_dream_def)

lemma ex_one_and_a_half:
  "audioMinutesRequested ex_s2n (Num (Fin (3 / 2))) = Fin 2"
  by (simp add: audioMinutesRequested_def ceiling_eq_iff)

text \<open>
  2.5 minutes, as a number or as the text \<open>2.5\<close>, count as 3: with 3 of 5 minutes used
  the request is denied, with none used it is accepted and 3 are debited. 1.5 minutes
  count as 2: with 3 of 5 minutes used the request is accepted and the minutes used,
  read off the statement above, go from 3 to 5. A request of -0.5 minutes rounds to
  zero: it is accepted and the 3 minutes used stay 3.
\<close>

theorem C10_audio_minutes_rounded_up_witness:
  "audioMinutesRequested ex_s2n (Num (Fin (5 / 2))) = Fin 3
   \<and> audioMinutesRequested ex_s2n (Str ex_two_and_a_half) = Fin 3
   \<and> post_dreams ex_s2n ex_db_audio 1000 ''d1'' ''dreamer2''
         (ex_request ex_three (Num (Fin (5 / 2)))) =
       (ErrorJson 403 (Some ''AUDIO_QUOTA_EXCEEDED''), ex_db_audio)
   \<and> post_dreams ex_s2n ex_db 1000 ''d1'' ''dreamer2''
         (ex_request ex_three (Str ex_two_and_a_half)) =
       (Json 201 (ex_dream ''d1'' ''dreamer2'' ex_three 1000), ex_db3)
   \<and> map up_audioMinutesUsed (userPlans ex_db3) = [0, 0, 0, 3]
   \<and> map up_audioMinutesUsed (userPlans ex_db_audio) = [0, 0, 0, 3]
   \<and> audioMinutesRequested ex_s2n (Num (Fin (3 / 2))) = Fin 2
   \<and> post_dreams ex_s2n ex_db_audio 1000 ''d1'' ''dreamer2''
         (ex_request ex_three (Num (Fin (3 / 2)))) =
       (Json 201 (ex_dream ''d1'' ''dreamer2'' ex_three 1000), ex_db4)
   \<and> map up_audioMinutesUsed (userPlans ex_db4) = [0, 0, 0, 3 + 2]
   \<and> fst (post_dreams ex_s2n ex_db_audio 1000 ''d1'' ''dreamer2''
            (ex_request ex_three (Num (Fin (- (1 / 2)))))) =
       Json 201 (ex_dream ''d1'' ''dreamer2'' ex_three 1000)
   \<and> map up_audioMinutesUsed
         (userPlans (snd (post_dreams ex_s2n ex_db_audio 1000 ''d1'' ''dreamer2''
                            (ex_request ex_three (Num (Fin (- (1 / 2)))))))) = [0, 0, 0, 3]"
proof -
  let ?sub = "(ex_sub ''s4'' ''dreamer2'' ''plan1'' 300 (Some 5000) True)\<lparr>up_audioMinutesUsed := 3\<rparr>"
  let ?rq = "ex_request ex_three (Num (Fin (5 / 2)))"
  let ?zero = "ex_request ex_three (Num (Fin (- (1 / 2))))"
  let ?two = "ex_request ex_three (Num (Fin (3 / 2)))"
  have p: "findProfile ex_db_audio ''dreamer2'' = Some (ex_profile ''dreamer2'' Dreamer)"
    by (simp add: findProfile_def ex_db_audio_def ex_db_def ex_profile_def)
  have r: "p_role (ex_profile ''dreamer2'' Dreamer) \<noteq> Admin"
      "p_role (ex_profile ''dreamer2'' Dreamer) \<noteq> SuperAdmin"
    by (simp_all add: ex_profile_def)
  have v: "present (rq_title ?rq)" "present (rq_description ?rq)"
    by (simp_all add: ex_request_def present_def ex_three_def)
  have g: "getActiveSubscription ex_db_audio 1000 ''dreamer2'' = Some (?sub, Some ex_plan)"
    by (simp add: getActiveSubscription_def ex_db_audio_def ex_db_def qualifying_def ex_sub_def
        findPlan_def ex_plan_def)
  have l: "case pl_letterQuota ex_plan of None \<Rightarrow> True
        | Some l \<Rightarrow> up_lettersUsed ?sub + int (countContentLetters (the (rq_description ?rq))) \<le> l"
    by (simp add: ex_plan_def ex_sub_def ex_request_def countContentLetters_def ex_three_def
        isLeadingSurrogate_def isTrailingSurrogate_def)
  have a: "audioMinutesRequested ex_s2n (rq_audioMinutes ?rq) = Fin (of_int 3)" "(0::int) < 3"
    by (simp_all add: ex_request_def ex_requested)
  have q: "pl_audioMinutesQuota ex_plan = Some 5" "5 < up_audioMinutesUsed ?sub + 3"
    by (simp_all add: ex_plan_def ex_sub_def)
  have s: "ex_two_and_a_half \<noteq> []" "ex_s2n ex_two_and_a_half = Fin (5 / 2)"
    by (simp_all add: ex_two_and_a_half_def ex_s2n_def)
  from C10_audio_minutes_rounded_up
         [of ex_s2n "5 / 2" ex_two_and_a_half ex_db_audio "''dreamer2''"
             "ex_profile ''dreamer2'' Dreamer" ?rq 1000 ?sub ex_plan 3 5 "''d1''"]
       p r v g l a q s
  have one: "audioMinutesRequested ex_s2n (Num (Fin (5 / 2))) = Fin (of_int \<lceil>5 / 2 :: rat\<rceil>)"
    and two: "audioMinutesRequested ex_s2n (Str ex_two_and_a_half) = Fin (of_int \<lceil>5 / 2 :: rat\<rceil>)"
    and three: "post_dreams ex_s2n ex_db_audio 1000 ''d1'' ''dreamer2'' ?rq =
       (ErrorJson 403 (Some ''AUDIO_QUOTA_EXCEEDED''), ex_db_audio)"
    by blast+
  have z: "\<not> gt_zero (audioMinutesRequested ex_s2n (rq_audioMinutes ?zero))"
    by (simp add: ex_request_def ex_requested)
  from C10_audio_minutes_rounded_up
         [of ex_s2n "5 / 2" ex_two_and_a_half ex_db_audio "''dreamer2''"
             "ex_profile ''dreamer2'' Dreamer" ?zero 1000 ?sub ex_plan 3 5 "''d1''"]
       z
  have four: "map up_audioMinutesUsed
         (userPlans (snd (post_dreams ex_s2n ex_db_audio 1000 ''d1'' ''dreamer2'' ?zero)))
       = map up_audioMinutesUsed (userPlans ex_db_audio)"
    by blast
  have b: "audioMinutesRequested ex_s2n (rq_audioMinutes ?two) = Fin (of_int 2)" "(0::int) < 2"
    by (simp_all add: ex_request_def ex_one_and_a_half)
  have debit: "post_dreams ex_s2n ex_db_audio 1000 ''d1'' ''dreamer2'' ?two =
       (Json 201 (ex_dream ''d1'' ''dreamer2'' ex_three 1000), ex_db4)"
    by (simp add: post_dreams_def getActiveSubscription_def ex_db_def ex_db_audio_def ex_db4_def
        qualifying_def ex_sub_def findPlan_def ex_plan_def ex_request_def present_def
        findProfile_def ex_profile_def Let_def create_dream_tx_def findDream_def
        countContentLetters_def ex_three_def isLeadingSurrogate_def isTrailingSurrogate_def
        ex_one_and_a_half bump_usage_def ex_dream_def)
  from C10_audio_minutes_rounded_up
         [of ex_s2n "5 / 2" ex_two_and_a_half ex_db_audio "''dreamer2''"
             "ex_profile ''dreamer2'' Dreamer" ?two 1000 ?sub ex_plan 2 5 "''d1''"
             "ex_dream ''d1'' ''dreamer2'' ex_three 1000" ex_db4]
       debit b
  have "\<exists>sub' pl'. getActiveSubscription ex_db_audio 1000 ''dreamer2'' = Some (sub', Some pl') \<and>
              userPlans ex_db4 =
                map (\<lambda>r. if up_id r = up_id sub'
                         then r\<lparr>up_lettersUsed :=
                                  up_lettersUsed r
                                  + int (countContentLetters (the (rq_description ?two))),
                                up_audioMinutesUsed := up_audioMinutesUsed r + 2\<rparr>
                         else r)
                    (userPlans ex_db_audio)"
    by blast
  then have "userPlans ex_db4 =
                map (\<lambda>r. if up_id r = up_id ?sub
                         then r\<lparr>up_lettersUsed :=
                                  up_lettersUsed r
                                  + int (countContentLetters (the (rq_description ?two))),
                                up_audioMinutesUsed := up_audioMinutesUsed r + 2\<rparr>
                         else r)
                    (userPlans ex_db_audio)"
    unfolding g by auto
  then have five: "map up_audioMinutesUsed (userPlans ex_db4) = [0, 0, 0, 3 + 2]"
    by (simp add: ex_db_audio_def ex_sub_def)
  have u: "map up_audioMinutesUsed (userPlans ex_db_audio) = [0, 0, 0, 3]"
      "map up_audioMinutesUsed (userPlans ex_db3) = [0, 0, 0, 3]"
    by (simp_all add: ex_db_audio_def ex_db3_def ex_sub_def)
  from one two three four five u ex_audio_creation ex_no_audio_creation ex_one_and_a_half
    debit
  show ?thesis
    by (simp add: ex_ceil)
qed

section \<open>Messages before an interpreter is assigned\<close>

lemma post_messages_unassigned:
  assumes "findDream d dreamId = Some dream" "\<not> assigned (d_interpreterId dream)"
      and "mr_dream_id rq = Some dreamId" "dreamId \<noteq> []"
      and "present (mr_content rq) \<or> assigned (mr_audio rq)"
  shows "post_messages d now newId stored userId rq =
           (ErrorJson 403 (Some ''NO_INTERPRETER_ASSIGNED''), d)"
  using assms by (auto simp add: post_messages_def assigned_def)

lemma get_messages_unassigned:
  assumes "findDream d dreamId = Some dream" "\<not> assigned (d_interpreterId dream)" "dreamId \<noteq> []"
  shows "get_messages d userId (Some dreamId) =
           (if map_option p_role (findProfile d userId) = Some SuperAdmin
            then Json 200 (sort_key m_createdAt (filter (\<lambda>m. m_dreamId m = dreamId) (messages d)))
            else ErrorJson 403 None)"
  using assms by (auto simp add: get_messages_def assigned_def Let_def)

text \<open>
  Claim C6 says that on a dream without an interpreter both reading and sending messages
  are refused with 403 to dreamers and interpreters and allowed to a super admin. The
  write path refuses the super admin too: \<open>POST /messages\<close> tests
  \<open>!dream.interpreterId\<close> for every sender, and after it admits only the dreamer and
  the assigned interpreter. In the example the super admin sends a message on the dream
  \<open>d1\<close>, which has no interpreter, and gets 403.
\<close>

theorem C6_no_interpreter_gate_counterexample:
  "map_option p_role (findProfile ex_db_chat ''root1'') = Some SuperAdmin
   \<and> map_option d_interpreterId (findDream ex_db_chat ''d1'') = Some None
   \<and> post_messages ex_db_chat 2000 ''m1'' (Inr None) ''root1'' ex_message_request =
       (ErrorJson 403 (Some ''NO_INTERPRETER_ASSIGNED''), ex_db_chat)"
proof -
  have role: "map_option p_role (findProfile ex_db_chat ''root1'') = Some SuperAdmin"
    by (simp add: findProfile_def ex_db_chat_def ex_db1_def ex_db_def ex_profile_def)
  have dream: "findDream ex_db_chat ''d1'' = Some (ex_dream ''d1'' ''dreamer2'' ex_seven 1000)"
    by (simp add: findDream_def ex_db_chat_def ex_db1_def ex_dream_def)
  have unassigned: "\<not> assigned (d_interpreterId (ex_dream ''d1'' ''dreamer2'' ex_seven 1000))"
    by (simp add: ex_dream_def assigned_def)
  have body: "mr_dream_id ex_message_request = Some ''d1''" "''d1'' \<noteq> []"
    "present (mr_content ex_message_request) \<or> assigned (mr_audio ex_message_request)"
    by (simp_all add: ex_message_request_def present_def)
  from post_messages_unassigned [OF dream unassigned body]
  have "post_messages ex_db_chat 2000 ''m1'' (Inr None) ''root1'' ex_message_request =
       (ErrorJson 403 (Some ''NO_INTERPRETER_ASSIGNED''), ex_db_chat)" .
  with role dream show ?thesis by (simp add: ex_dream_def)
qed

text \<open>
  Claim C6 as amended. For every dream without an interpreter: reading its messages is
  refused with 403 to every requester who is not a super admin (dreamer and interpreter
  included) and allowed to a super admin; sending a message with a well-formed body is
  refused with 403 and code \<open>NO_INTERPRETER_ASSIGNED\<close> to every requester, the super
  admin included, and writes nothing. The gate stands on both paths; the super admin
  exemption is on the read path only.
\<close>

theorem C6_no_interpreter_gate:
  "(findDream d dreamId = Some dream \<and> d_interpreterId dream = None \<and> dreamId \<noteq> [] \<and>
    map_option p_role (findProfile d userId) \<noteq> Some SuperAdmin
    \<longrightarrow> get_messages d userId (Some dreamId) = ErrorJson 403 None)
   \<and> (findDream d dreamId = Some dream \<and> d_interpreterId dream = None \<and> dreamId \<noteq> [] \<and>
       map_option p_role (findProfile d userId) = Some SuperAdmin
       \<longrightarrow> get_messages d userId (Some dreamId) =
             Json 200 (sort_key m_createdAt (filter (\<lambda>m. m_dreamId m = dreamId) (messages d))))
   \<and> (findDream d dreamId = Some dream \<and> d_interpreterId dream = None \<and> dreamId \<noteq> [] \<and>
       mr_dream_id rq = Some dreamId \<and> (present (mr_content rq) \<or> assigned (mr_audio rq))
       \<longrightarrow> post_messages d now newId stored userId rq =
             (ErrorJson 403 (Some ''NO_INTERPRETER_ASSIGNED''), d))"
proof (intro conjI impI)
  assume a: "findDream d dreamId = Some dream \<and> d_interpreterId dream = None \<and> dreamId \<noteq> [] \<and>
    map_option p_role (findProfile d userId) \<noteq> Some SuperAdmin"
  then have "\<not> assigned (d_interpreterId dream)" by (simp add: assigned_def)
  with a show "get_messages d userId (Some dreamId) = ErrorJson 403 None"
    by (simp add: get_messages_unassigned)
next
  assume a: "findDream d dreamId = Some dream \<and> d_interpreterId dream = None \<and> dreamId \<noteq> [] \<and>
       map_option p_role (findProfile d userId) = Some SuperAdmin"
  then have "\<not> assigned (d_interpreterId dream)" by (simp add: assigned_def)
  with a show "get_messages d userId (Some dreamId) =
             Json 200 (sort_key m_createdAt (filter (\<lambda>m. m_dreamId m = dreamId) (messages d)))"
    by (simp add: get_messages_unassigned)
next
  assume a: "findDream d dreamId = Some dream \<and> d_interpreterId dream = None \<and> dreamId \<noteq> [] \<and>
       mr_dream_id rq = Some dreamId \<and> (present (mr_content rq) \<or> assigned (mr_audio rq))"
  then have "\<not> assigned (d_interpreterId dream)" by (simp add: assigned_def)
  with a show "post_messages d now newId stored userId rq =
             (ErrorJson 403 (Some ''NO_INTERPRETER_ASSIGNED''), d)"
    by (intro post_messages_unassigned [of d dreamId dream rq]) simp_all
qed

text \<open>
  On dream \<open>d1\<close> of the example the dreamer and an interpreter are refused on both
  paths; the super admin reads the stored message but is refused when sending.
\<close>

theorem C6_no_interpreter_gate_witness:
  "map_option d_interpreterId (findDream ex_db_chat ''d1'') = Some None
   \<and> get_messages ex_db_chat ''dreamer2'' (Some ''d1'') = ErrorJson 403 None
   \<and> get_messages ex_db_chat ''interp1'' (Some ''d1'') = ErrorJson 403 None
   \<and> get_messages ex_db_chat ''root1'' (Some ''d1'') = Json 200 [ex_message]
   \<and> post_messages ex_db_chat 2000 ''m1'' (Inr None) ''dreamer2'' ex_message_request =
       (ErrorJson 403 (Some ''NO_INTERPRETER_ASSIGNED''), ex_db_chat)
   \<and> post_messages ex_db_chat 2000 ''m1'' (Inr None) ''root1'' ex_message_request =
       (ErrorJson 403 (Some ''NO_INTERPRETER_ASSIGNED''), ex_db_chat)"
proof -
  let ?dream = "ex_dream ''d1'' ''dreamer2'' ex_seven 1000"
  have f: "findDream ex_db_chat ''d1'' = Some ?dream"
    by (simp add: findDream_def ex_db_chat_def ex_db1_def ex_dream_def)
  have n: "d_interpreterId ?dream = None" "''d1'' \<noteq> []"
    by (simp_all add: ex_dream_def)
  have roles:
    "map_option p_role (findProfile ex_db_chat ''dreamer2'') \<noteq> Some SuperAdmin"
    "map_option p_role (findProfile ex_db_chat ''interp1'') \<noteq> Some SuperAdmin"
    "map_option p_role (findProfile ex_db_chat ''root1'') = Some SuperAdmin"
    by (simp_all add: findProfile_def ex_db_chat_def ex_db1_def ex_db_def ex_profile_def)
  have rq: "mr_dream_id ex_message_request = Some ''d1''"
      "present (mr_content ex_message_request) \<or> assigned (mr_audio ex_message_request)"
    by (simp_all add: ex_message_request_def present_def)
  have ms: "sort_key m_createdAt (filter (\<lambda>m. m_dreamId m = ''d1'') (messages ex_db_chat))
             = [ex_message]"
    by (simp add: ex_db_chat_def ex_message_def)
  from C6_no_interpreter_gate [of ex_db_chat "''d1''" ?dream "''dreamer2''" ex_message_request
                                  2000 "''m1''" "Inr None"]
       f n roles(1) rq
  have g1: "get_messages ex_db_chat ''dreamer2'' (Some ''d1'') = ErrorJson 403 None"
    and p1: "post_messages ex_db_chat 2000 ''m1'' (Inr None) ''dreamer2'' ex_message_request =
       (ErrorJson 403 (Some ''NO_INTERPRETER_ASSIGNED''), ex_db_chat)"
    by blast+
  from C6_no_interpreter_gate [of ex_db_chat "''d1''" ?dream "''interp1''" ex_message_request
                                  2000 "''m1''" "Inr None"]
       f n roles(2)
  have g2: "get_messages ex_db_chat ''interp1'' (Some ''d1'') = ErrorJson 403 None"
    by blast
  from C6_no_interpreter_gate [of ex_db_chat "''d1''" ?dream "''root1''" ex_message_request
                                  2000 "''m1''" "Inr None"]
       f n roles(3) rq ms
  have g3: "get_messages ex_db_chat ''root1'' (Some ''d1'') = Json 200 [ex_message]"
    and p3: "post_messages ex_db_chat 2000 ''m1'' (Inr None) ''root1'' ex_message_request =
       (ErrorJson 403 (Some ''NO_INTERPRETER_ASSIGNED''), ex_db_chat)"
    by auto
  from f n g1 g2 g3 p1 p3 show ?thesis by simp
qed

section \<open>Token validation in front of the content handlers\<close>

lemma requireAuth_rejects:
  assumes "\<forall>t \<in> set (carried_tokens req). verify t = None"
  shows "requireAuth verify req = Inl (ErrorJson 401 None)"
proof (cases "assigned (hdr_authorization req) \<and> take 7 (the (hdr_authorization req)) = ''Bearer ''")
  case True
  then obtain h where h: "hdr_authorization req = Some h" "take 7 h = ''Bearer ''"
    by (cases "hdr_authorization req") (simp_all add: assigned_def)
  with assms have "verify (trim (drop 7 h)) = None"
    by (simp add: carried_tokens_def)
  with h True show ?thesis
    by (simp add: requireAuth_def Let_def assigned_def)
next
  case False
  show ?thesis
  proof (cases "cookie_auth_token req")
    case None
    with False show ?thesis by (auto simp add: requireAuth_def Let_def assigned_def)
  next
    case (Some c)
    with assms have "verify c = None" by (simp add: carried_tokens_def)
    with Some False show ?thesis by (auto simp add: requireAuth_def Let_def assigned_def)
  qed
qed

text \<open>
  Claim C9 says that every content endpoint answers 401 to a request without a valid
  token before the handler runs. That holds for every route of the dreams, messages,
  chat and requests routers and for \<open>POST /comments\<close>: when none of the tokens the
  request carries verifies, the answer is 401 whatever the handler is. It fails for
  \<open>GET /comments\<close>, the one content route registered without \<open>requireAuth\<close>: there
  the handler runs for every request, with no user, although the same read on the
  messages router, by \<open>dream_id\<close> as well, is behind the middleware.
\<close>

theorem C9_token_validation_before_handlers:
  "(ep \<noteq> Comments_GET_root \<and> (\<forall>t \<in> set (carried_tokens req). verify t = None)
    \<longrightarrow> serve verify ep req handler = ErrorJson 401 None)
   \<and> serve verify Comments_GET_root req handler = handler None"
proof (intro conjI impI)
  assume a: "ep \<noteq> Comments_GET_root \<and> (\<forall>t \<in> set (carried_tokens req). verify t = None)"
  then have "has_requireAuth ep" by (cases ep) simp_all
  moreover from a have "\<forall>t \<in> set (carried_tokens req). verify t = None"
    by simp
  ultimately show "serve verify ep req handler = ErrorJson 401 None"
    by (simp add: serve_def requireAuth_rejects)
next
  show "serve verify Comments_GET_root req handler = handler None"
    by (simp add: serve_def)
qed

text \<open>
  With a verifier that accepts nothing, a request with forged tokens gets 401 from
  \<open>GET /dreams\<close> and an anonymous one gets 401 from \<open>POST /comments\<close>, while the
  anonymous \<open>GET /comments\<close> returns the stored comment.
\<close>

theorem C9_token_validation_before_handlers_witness:
  "carried_tokens ex_forged = [''abc'', ''xyz'']
   \<and> serve (\<lambda>t. None) Dreams_GET_root ex_forged (\<lambda>u. Json 200 (dreams ex_db_comments))
       = ErrorJson 401 None
   \<and> serve (\<lambda>t. None) Comments_POST_root ex_anonymous (\<lambda>u. Json 201 ex_comment)
       = ErrorJson 401 None
   \<and> carried_tokens ex_anonymous = []
   \<and> serve (\<lambda>t. None) Comments_GET_root ex_anonymous (\<lambda>u. get_comments ex_db_comments (Some ''d1''))
       = Json 200 [ex_comment]"
proof -
  have c: "carried_tokens ex_forged = [''abc'', ''xyz'']" "carried_tokens ex_anonymous = []"
    by (simp_all add: carried_tokens_def ex_forged_def ex_anonymous_def trim_def js_space_def)
  have g: "get_comments ex_db_comments (Some ''d1'') = Json 200 [ex_comment]"
    by (simp add: get_comments_def assigned_def ex_db_comments_def ex_comment_def)
  from C9_token_validation_before_handlers
         [of Dreams_GET_root ex_forged "\<lambda>t. None" "\<lambda>u. Json 200 (dreams ex_db_comments)"]
  have one: "serve (\<lambda>t. None) Dreams_GET_root ex_forged (\<lambda>u. Json 200 (dreams ex_db_comments))
       = ErrorJson 401 None"
    by simp
  from C9_token_validation_before_handlers
         [of Comments_POST_root ex_anonymous "\<lambda>t. None" "\<lambda>u. Json 201 ex_comment"]
  have two: "serve (\<lambda>t. None) Comments_POST_root ex_anonymous (\<lambda>u. Json 201 ex_comment)
       = ErrorJson 401 None"
    by simp
  from C9_token_validation_before_handlers
         [of Comments_GET_root ex_anonymous "\<lambda>t. None"
             "\<lambda>u. get_comments ex_db_comments (Some ''d1'')"] g
  have three: "serve (\<lambda>t. None) Comments_GET_root ex_anonymous
                 (\<lambda>u. get_comments ex_db_comments (Some ''d1'')) = Json 200 [ex_comment]"
    by simp
  from c one two three show ?thesis by simp
qed

section \<open>Activating a subscription\<close>

lemma find_Some_holds: "find P xs = Some x \<Longrightarrow> P x \<and> x \<in> set xs"
  by (induction xs) (auto split: if_splits)

lemma find_map_where:
  assumes "\<And>r. P (f r) = P r"
  shows "find P (map (\<lambda>r. if P r then f r else r) rows) = map_option f (find P rows)"
  using assms by (induction rows) simp_all

lemma filter_map_where:
  assumes "\<And>r. P (f r) = P r"
  shows "length (filter P (map (\<lambda>r. if P r then f r else r) rows)) = length (filter P rows)"
  using assms by (induction rows) simp_all

lemma findProfile_set_currentPlan:
  assumes "profile_set_currentPlan d userId planId = Inr d'"
  shows "map_option p_currentPlanId (findProfile d' userId) = Some (Some planId)"
    and "payments d' = payments d" and "userPlans d' = userPlans d"
proof -
  from assms have d': "d' = d\<lparr>profiles :=
                  map (\<lambda>p. if p_id p = userId then p\<lparr>p_currentPlanId := Some planId\<rparr> else p)
                      (profiles d)\<rparr>"
    and ex: "findProfile d userId \<noteq> None"
    by (auto simp add: profile_set_currentPlan_def split: if_splits)
  have "find (\<lambda>p. p_id p = userId)
          (map (\<lambda>p. if p_id p = userId then p\<lparr>p_currentPlanId := Some planId\<rparr> else p) (profiles d))
        = map_option (\<lambda>p. p\<lparr>p_currentPlanId := Some planId\<rparr>) (find (\<lambda>p. p_id p = userId) (profiles d))"
    by (rule find_map_where) simp
  with d' ex show "map_option p_currentPlanId (findProfile d' userId) = Some (Some planId)"
    by (auto simp add: findProfile_def)
  from d' show "payments d' = payments d" and "userPlans d' = userPlans d"
    by simp_all
qed

lemma userPlan_upsert_existing:
  assumes "find (\<lambda>r. up_userId r = userId \<and> up_planId r = planId) (userPlans d) = Some old"
      and "\<And>r. up_userId (update r) = up_userId r \<and> up_planId (update r) = up_planId r"
  shows "userPlan_upsert d userId planId created update =
           Inr (update old,
                d\<lparr>userPlans :=
                     map (\<lambda>r. if up_userId r = userId \<and> up_planId r = planId then update r else r)
                         (userPlans d)\<rparr>)"
    and "find (\<lambda>r. up_userId r = userId \<and> up_planId r = planId)
           (map (\<lambda>r. if up_userId r = userId \<and> up_planId r = planId then update r else r)
                (userPlans d)) = Some (update old)"
    and "length (filter (\<lambda>r. up_userId r = userId \<and> up_planId r = planId)
           (map (\<lambda>r. if up_userId r = userId \<and> up_planId r = planId then update r else r)
                (userPlans d)))
         = length (filter (\<lambda>r. up_userId r = userId \<and> up_planId r = planId) (userPlans d))"
proof -
  show "userPlan_upsert d userId planId created update =
           Inr (update old,
                d\<lparr>userPlans :=
                     map (\<lambda>r. if up_userId r = userId \<and> up_planId r = planId then update r else r)
                         (userPlans d)\<rparr>)"
    using assms(1) by (simp add: userPlan_upsert_def)
  have "find (\<lambda>r. up_userId r = userId \<and> up_planId r = planId)
           (map (\<lambda>r. if up_userId r = userId \<and> up_planId r = planId then update r else r)
                (userPlans d))
        = map_option update (find (\<lambda>r. up_userId r = userId \<and> up_planId r = planId) (userPlans d))"
    by (rule find_map_where) (simp add: assms(2))
  with assms(1) show "find (\<lambda>r. up_userId r = userId \<and> up_planId r = planId)
           (map (\<lambda>r. if up_userId r = userId \<and> up_planId r = planId then update r else r)
                (userPlans d)) = Some (update old)"
    by simp
  show "length (filter (\<lambda>r. up_userId r = userId \<and> up_planId r = planId)
           (map (\<lambda>r. if up_userId r = userId \<and> up_planId r = planId then update r else r)
                (userPlans d)))
         = length (filter (\<lambda>r. up_userId r = userId \<and> up_planId r = planId) (userPlans d))"
    by (rule filter_map_where) (simp add: assms(2))
qed

lemma userPlan_upsert_Inr:
  assumes "userPlan_upsert d userId planId created update = Inr (row, d')"
  shows "d' = d\<lparr>userPlans :=
                  (case find (\<lambda>r. up_userId r = userId \<and> up_planId r = planId) (userPlans d) of
                     Some old \<Rightarrow>
                       map (\<lambda>r. if up_userId r = userId \<and> up_planId r = planId then update r else r)
                           (userPlans d)
                   | None \<Rightarrow> userPlans d @ [created])\<rparr>
         \<and> row = (case find (\<lambda>r. up_userId r = userId \<and> up_planId r = planId) (userPlans d) of
                    Some old \<Rightarrow> update old | None \<Rightarrow> created)"
  using assms by (auto simp add: userPlan_upsert_def split: option.splits if_splits)

lemma payment_create_Inr:
  assumes "payment_create d p = Inr d'"
  shows "d' = d\<lparr>payments := payments d @ [p]\<rparr>"
  using assms by (auto simp add: payment_create_def split: if_splits)

lemma checkout_completed_tx_Inr:
  assumes "checkout_completed_tx z d now newPaymentId newUserPlanId session = Inr d'"
  shows "\<exists>n e. cs_durationDays session = Some n \<and> addDays z now n = Some e \<and>
           payments d' = payments d @
             [\<lparr>pay_id = newPaymentId, pay_userId = cs_userId session,
               pay_planId = Some (cs_planId session),
               pay_amount = of_int (cs_amount_total session) / 100,
               pay_status = Succeeded, pay_provider = Some ''stripe'',
               pay_reference = Some (cs_id session), pay_paidAt = Some now\<rparr>] \<and>
           userPlans d' =
             (case find (\<lambda>r. up_userId r = cs_userId session \<and> up_planId r = cs_planId session)
                     (userPlans d) of
                Some old \<Rightarrow>
                  map (\<lambda>r. if up_userId r = cs_userId session \<and> up_planId r = cs_planId session
                           then r\<lparr>up_isActive := True, up_expiresAt := Some e,
                                  up_lettersUsed := 0, up_audioMinutesUsed := 0,
                                  up_startedAt := now\<rparr>
                           else r)
                      (userPlans d)
              | None \<Rightarrow>
                  userPlans d @
                    [\<lparr>up_id = newUserPlanId, up_userId = cs_userId session,
                      up_planId = cs_planId session, up_startedAt = now,
                      up_expiresAt = Some e, up_isActive = True,
                      up_lettersUsed = 0, up_audioMinutesUsed = 0\<rparr>]) \<and>
           map_option p_currentPlanId (findProfile d' (cs_userId session))
             = Some (Some (cs_planId session))"
proof -
  let ?pay = "\<lparr>pay_id = newPaymentId, pay_userId = cs_userId session,
               pay_planId = Some (cs_planId session),
               pay_amount = of_int (cs_amount_total session) / 100,
               pay_status = Succeeded, pay_provider = Some ''stripe'',
               pay_reference = Some (cs_id session), pay_paidAt = Some now\<rparr>"
  from assms obtain d1 where d1: "payment_create d ?pay = Inr d1"
    by (cases "payment_create d ?pay") (simp_all add: checkout_completed_tx_def)
  from assms d1 obtain n where n: "cs_durationDays session = Some n"
    by (cases "cs_durationDays session") (simp_all add: checkout_completed_tx_def)
  from assms d1 n obtain e where e: "addDays z now n = Some e"
    by (cases "addDays z now n") (simp_all add: checkout_completed_tx_def)
  let ?created = "\<lparr>up_id = newUserPlanId, up_userId = cs_userId session,
                      up_planId = cs_planId session, up_startedAt = now,
                      up_expiresAt = Some e, up_isActive = True,
                      up_lettersUsed = 0, up_audioMinutesUsed = 0\<rparr>"
  let ?update = "\<lambda>r. r\<lparr>up_isActive := True, up_expiresAt := Some e,
                                  up_lettersUsed := 0, up_audioMinutesUsed := 0,
                                  up_startedAt := now\<rparr>"
  let ?up = "userPlan_upsert d1 (cs_userId session) (cs_planId session) ?created ?update"
  from assms d1 n e obtain row d2 where d2: "?up = Inr (row, d2)"
    by (cases ?up) (auto simp add: checkout_completed_tx_def)
  from assms d1 n e d2
  have last: "profile_set_currentPlan d2 (cs_userId session) (cs_planId session) = Inr d'"
    by (simp add: checkout_completed_tx_def)
  from payment_create_Inr [OF d1]
  have a: "payments d1 = payments d @ [?pay]" "userPlans d1 = userPlans d"
    by simp_all
  from userPlan_upsert_Inr [OF d2]
  have b: "payments d2 = payments d1"
    "userPlans d2 =
       (case find (\<lambda>r. up_userId r = cs_userId session \<and> up_planId r = cs_planId session)
               (userPlans d1) of
          Some old \<Rightarrow>
            map (\<lambda>r. if up_userId r = cs_userId session \<and> up_planId r = cs_planId session
                     then ?update r else r)
                (userPlans d1)
        | None \<Rightarrow> userPlans d1 @ [?created])"
    by simp_all
  note c = findProfile_set_currentPlan(2) [OF last] findProfile_set_currentPlan(3) [OF last]
    findProfile_set_currentPlan(1) [OF last]
  have "payments d' = payments d @ [?pay]"
    by (simp only: c(1) b(1) a(1))
  moreover have "userPlans d' =
             (case find (\<lambda>r. up_userId r = cs_userId session \<and> up_planId r = cs_planId session)
                     (userPlans d) of
                Some old \<Rightarrow>
                  map (\<lambda>r. if up_userId r = cs_userId session \<and> up_planId r = cs_planId session
                           then ?update r else r)
                      (userPlans d)
              | None \<Rightarrow> userPlans d @ [?created])"
    by (simp only: c(2) b(2) a(2))
  ultimately show ?thesis using n e c(3) by blast
qed

lemma post_webhook_completed:
  assumes "post_webhook z d now newPaymentId newUserPlanId configured sig
             (Some (CheckoutSessionCompleted session)) = (Json 200 Received, d')"
  shows "checkout_completed_tx z d now newPaymentId newUserPlanId session = Inr d'"
  using assms
  by (auto simp add: post_webhook_def split: if_splits sum.splits)

lemma subscribe_tx_Inr:
  assumes "subscribe_tx z d now newUserPlanId newPaymentId userId pl = Inr (sub, d')"
  shows "\<exists>e. addDays z now (pl_durationDays pl) = Some e \<and>
         sub = (case find (\<lambda>r. up_userId r = userId \<and> up_planId r = pl_id pl) (userPlans d) of
                  Some old \<Rightarrow> old\<lparr>up_expiresAt := Some e,
                                   up_isActive := True, up_lettersUsed := 0,
                                   up_audioMinutesUsed := 0\<rparr>
                | None \<Rightarrow>
                    \<lparr>up_id = newUserPlanId, up_userId = userId, up_planId = pl_id pl,
                     up_startedAt = now, up_expiresAt = Some e,
                     up_isActive = True, up_lettersUsed = 0, up_audioMinutesUsed = 0\<rparr>) \<and>
         userPlans d' =
           (case find (\<lambda>r. up_userId r = userId \<and> up_planId r = pl_id pl) (userPlans d) of
              Some old \<Rightarrow>
                map (\<lambda>r. if up_userId r = userId \<and> up_planId r = pl_id pl
                         then r\<lparr>up_expiresAt := Some e,
                                up_isActive := True, up_lettersUsed := 0,
                                up_audioMinutesUsed := 0\<rparr>
                         else r)
                    (userPlans d)
            | None \<Rightarrow>
                userPlans d @
                  [\<lparr>up_id = newUserPlanId, up_userId = userId, up_planId = pl_id pl,
                    up_startedAt = now, up_expiresAt = Some e,
                    up_isActive = True, up_lettersUsed = 0, up_audioMinutesUsed = 0\<rparr>]) \<and>
         payments d' = payments d @
           [\<lparr>pay_id = newPaymentId, pay_userId = userId, pay_planId = Some (pl_id pl),
             pay_amount = pl_price pl, pay_status = Succeeded, pay_provider = Some ''manual'',
             pay_reference = Some (''SUB-'' @ show_int now), pay_paidAt = None\<rparr>] \<and>
         map_option p_currentPlanId (findProfile d' userId) = Some (Some (pl_id pl))"
proof -
  from assms obtain e where e: "addDays z now (pl_durationDays pl) = Some e"
    by (cases "addDays z now (pl_durationDays pl)") (simp_all add: subscribe_tx_def)
  let ?created = "\<lparr>up_id = newUserPlanId, up_userId = userId, up_planId = pl_id pl,
                     up_startedAt = now, up_expiresAt = Some e,
                     up_isActive = True, up_lettersUsed = 0, up_audioMinutesUsed = 0\<rparr>"
  let ?update = "\<lambda>r. r\<lparr>up_expiresAt := Some e,
                                up_isActive := True, up_lettersUsed := 0,
                                up_audioMinutesUsed := 0\<rparr>"
  let ?pay = "\<lparr>pay_id = newPaymentId, pay_userId = userId, pay_planId = Some (pl_id pl),
             pay_amount = pl_price pl, pay_status = Succeeded, pay_provider = Some ''manual'',
             pay_reference = Some (''SUB-'' @ show_int now), pay_paidAt = None\<rparr>"
  let ?up = "userPlan_upsert d userId (pl_id pl) ?created ?update"
  from assms e obtain row d1 where d1: "?up = Inr (row, d1)"
    by (cases ?up) (auto simp add: subscribe_tx_def)
  from assms e d1 obtain d2 where d2: "profile_set_currentPlan d1 userId (pl_id pl) = Inr d2"
    by (cases "profile_set_currentPlan d1 userId (pl_id pl)") (simp_all add: subscribe_tx_def)
  from assms e d1 d2 have d3: "payment_create d2 ?pay = Inr d'" and row: "row = sub"
    by (cases "payment_create d2 ?pay"; simp add: subscribe_tx_def)+
  from userPlan_upsert_Inr [OF d1] row
  have a: "sub = (case find (\<lambda>r. up_userId r = userId \<and> up_planId r = pl_id pl) (userPlans d) of
                  Some old \<Rightarrow> ?update old | None \<Rightarrow> ?created)"
    "payments d1 = payments d"
    "userPlans d1 =
           (case find (\<lambda>r. up_userId r = userId \<and> up_planId r = pl_id pl) (userPlans d) of
              Some old \<Rightarrow>
                map (\<lambda>r. if up_userId r = userId \<and> up_planId r = pl_id pl then ?update r else r)
                    (userPlans d)
            | None \<Rightarrow> userPlans d @ [?created])"
    by simp_all
  note b = findProfile_set_currentPlan(2) [OF d2] findProfile_set_currentPlan(3) [OF d2]
    findProfile_set_currentPlan(1) [OF d2]
  from payment_create_Inr [OF d3]
  have c: "payments d' = payments d2 @ [?pay]" "userPlans d' = userPlans d2"
    "findProfile d' userId = findProfile d2 userId"
    by (simp_all add: findProfile_def)
  have "userPlans d' =
           (case find (\<lambda>r. up_userId r = userId \<and> up_planId r = pl_id pl) (userPlans d) of
              Some old \<Rightarrow>
                map (\<lambda>r. if up_userId r = userId \<and> up_planId r = pl_id pl then ?update r else r)
                    (userPlans d)
            | None \<Rightarrow> userPlans d @ [?created])"
    by (simp only: c(2) b(2) a(3))
  moreover have "payments d' = payments d @ [?pay]"
    by (simp only: c(1) b(1) a(2))
  moreover have "map_option p_currentPlanId (findProfile d' userId) = Some (Some (pl_id pl))"
    by (simp only: c(3) b(3))
  ultimately show ?thesis using e a(1) by blast
qed

lemma post_subscribe_ok:
  assumes "post_subscribe z d now newUserPlanId newPaymentId userId (Some planId) = (Json 200 (sub, pl), d')"
  shows "findPlan d planId = Some pl \<and> pl_id pl = planId \<and>
         subscribe_tx z d now newUserPlanId newPaymentId userId pl = Inr (sub, d')"
proof -
  from assms obtain pl' where pl': "findPlan d planId = Some pl'"
    by (cases "findPlan d planId") (auto simp add: post_subscribe_def split: if_splits)
  from assms pl' have "pl' = pl \<and> subscribe_tx z d now newUserPlanId newPaymentId userId pl' = Inr (sub, d')"
    by (auto simp add: post_subscribe_def split: if_splits sum.splits)
  moreover from pl' have "pl_id pl' = planId"
    using find_Some_holds [of "\<lambda>p. pl_id p = planId" "plans d" pl'] by (simp add: findPlan_def)
  ultimately show ?thesis using pl' by auto
qed

lemmas ex_webhook_defs =
  post_webhook_def checkout_completed_tx_def payment_create_def userPlan_upsert_def
  profile_set_currentPlan_def assigned_def findProfile_def findPlan_def addDays_def
  time_clip_def Let_def ex_utc_def ex_session_def ex_stripe_payment_def ex_s4_def ex_paid_def ex_db_def ex_profile_def
  ex_plan_def ex_plan2_def ex_sub_def

lemma ex_first_delivery:
  "post_webhook ex_utc ex_db 500 ''pay1'' ''up1'' True (Some ''sig'')
     (Some (CheckoutSessionCompleted ex_session)) = (Json 200 Received, ex_paid_once)"
  by (simp add: ex_webhook_defs ex_paid_once_def)

lemma ex_creation_between:
  "post_dreams ex_s2n ex_paid_once 1000 ''d1'' ''dreamer2'' (ex_request ex_seven Undefined) =
     (Json 201 (ex_dream ''d1'' ''dreamer2'' ex_seven 1000), ex_paid_used)"
  by (simp add: post_dreams_def getActiveSubscription_def ex_paid_once_def ex_paid_used_def
      ex_paid_def ex_s4_def qualifying_def ex_sub_def findPlan_def ex_plan_def ex_request_def
      present_def findProfile_def ex_profile_def Let_def create_dream_tx_def findDream_def
      countContentLetters_def ex_seven_def isLeadingSurrogate_def isTrailingSurrogate_def
      audioMinutesRequested_def bump_usage_def ex_dream_def)

lemma ex_second_delivery:
  "post_webhook ex_utc ex_paid_used 2000 ''pay2'' ''up2'' True (Some ''sig'')
     (Some (CheckoutSessionCompleted ex_session)) = (Json 200 Received, ex_paid_twice)"
  by (simp add: ex_webhook_defs ex_paid_used_def ex_paid_twice_def)

lemma ex_resubscribe:
  "post_subscribe ex_utc ex_paid_used 9000 ''up9'' ''pay9'' ''dreamer2'' (Some ''plan1'') =
     (Json 200 (ex_s4 500 2592009000 0, ex_plan), ex_resubscribed)"
  by (simp add: post_subscribe_def subscribe_tx_def payment_create_def userPlan_upsert_def
      profile_set_currentPlan_def assigned_def findProfile_def findPlan_def addDays_def
      time_clip_def Let_def ex_utc_def ex_stripe_payment_def ex_s4_def ex_paid_def ex_profile_def ex_plan_def ex_sub_def
      ex_paid_used_def ex_resubscribed_def show_int_def)

text \<open>
  Claim C7 says that subscribing again to a plan one already has, by
  \<open>POST /plans/subscribe\<close> or by the webhook, sets both usage counters to zero, sets a
  new expiry, moves the start of the window and sets the user's current plan. Both paths
  do all of it but one: the update branch of the webhook's upsert sets
  \<open>startedAt: new Date()\<close>, the update branch of \<open>POST /plans/subscribe\<close> does not, so
  after a manual re-subscribe the subscription keeps the \<open>startedAt\<close> it had (and with
  it the window over which the dreams counted against \<open>maxDreams\<close> are taken).
\<close>

theorem C7_resubscribe_window_start:
  "(find (\<lambda>r. up_userId r = userId \<and> up_planId r = planId) (userPlans d) = Some old \<and>
    post_subscribe z d now newUserPlanId newPaymentId userId (Some planId) = (Json 200 (sub, pl), d')
    \<longrightarrow> find (\<lambda>r. up_userId r = userId \<and> up_planId r = planId) (userPlans d') = Some sub \<and>
         up_lettersUsed sub = 0 \<and> up_audioMinutesUsed sub = 0 \<and> up_isActive sub \<and>
         up_expiresAt sub = addDays z now (pl_durationDays pl) \<and> up_expiresAt sub \<noteq> None \<and>
         map_option p_currentPlanId (findProfile d' userId) = Some (Some planId) \<and>
         up_startedAt sub = up_startedAt old)
   \<and> (find (\<lambda>r. up_userId r = cs_userId session \<and> up_planId r = cs_planId session)
          (userPlans d) = Some old \<and>
       post_webhook z d now newPaymentId newUserPlanId configured sig
         (Some (CheckoutSessionCompleted session)) = (Json 200 Received, d')
       \<longrightarrow> (\<exists>sub n.
              find (\<lambda>r. up_userId r = cs_userId session \<and> up_planId r = cs_planId session)
                (userPlans d') = Some sub \<and>
              cs_durationDays session = Some n \<and>
              up_lettersUsed sub = 0 \<and> up_audioMinutesUsed sub = 0 \<and> up_isActive sub \<and>
              up_expiresAt sub = addDays z now n \<and> up_expiresAt sub \<noteq> None \<and>
              map_option p_currentPlanId (findProfile d' (cs_userId session))
                = Some (Some (cs_planId session)) \<and>
              up_startedAt sub = now))"
proof (rule conjI; rule impI)
  assume a: "find (\<lambda>r. up_userId r = userId \<and> up_planId r = planId) (userPlans d) = Some old \<and>
    post_subscribe z d now newUserPlanId newPaymentId userId (Some planId) = (Json 200 (sub, pl), d')"
  then have old: "find (\<lambda>r. up_userId r = userId \<and> up_planId r = planId) (userPlans d) = Some old"
    and post: "post_subscribe z d now newUserPlanId newPaymentId userId (Some planId)
                 = (Json 200 (sub, pl), d')"
    by simp_all
  from post_subscribe_ok [OF post]
  have pl: "pl_id pl = planId"
    and tx: "subscribe_tx z d now newUserPlanId newPaymentId userId pl = Inr (sub, d')"
    by simp_all
  from subscribe_tx_Inr [OF tx] obtain e where e: "addDays z now (pl_durationDays pl) = Some e"
    by blast
  let ?update = "\<lambda>r. r\<lparr>up_expiresAt := Some e,
                        up_isActive := True, up_lettersUsed := 0, up_audioMinutesUsed := 0\<rparr>"
  from subscribe_tx_Inr [OF tx] e old pl
  have sub: "sub = ?update old"
    and rows: "userPlans d' =
                 map (\<lambda>r. if up_userId r = userId \<and> up_planId r = planId then ?update r else r)
                     (userPlans d)"
    and ptr: "map_option p_currentPlanId (findProfile d' userId) = Some (Some planId)"
    by simp_all
  have "find (\<lambda>r. up_userId r = userId \<and> up_planId r = planId) (userPlans d') = Some (?update old)"
    unfolding rows by (rule userPlan_upsert_existing(2) [OF old]) simp
  with sub ptr e
  show "find (\<lambda>r. up_userId r = userId \<and> up_planId r = planId) (userPlans d') = Some sub \<and>
         up_lettersUsed sub = 0 \<and> up_audioMinutesUsed sub = 0 \<and> up_isActive sub \<and>
         up_expiresAt sub = addDays z now (pl_durationDays pl) \<and> up_expiresAt sub \<noteq> None \<and>
         map_option p_currentPlanId (findProfile d' userId) = Some (Some planId) \<and>
         up_startedAt sub = up_startedAt old"
    by simp
next
  assume a: "find (\<lambda>r. up_userId r = cs_userId session \<and> up_planId r = cs_planId session)
          (userPlans d) = Some old \<and>
       post_webhook z d now newPaymentId newUserPlanId configured sig
         (Some (CheckoutSessionCompleted session)) = (Json 200 Received, d')"
  then have old: "find (\<lambda>r. up_userId r = cs_userId session \<and> up_planId r = cs_planId session)
          (userPlans d) = Some old"
    and post: "post_webhook z d now newPaymentId newUserPlanId configured sig
         (Some (CheckoutSessionCompleted session)) = (Json 200 Received, d')"
    by simp_all
  from checkout_completed_tx_Inr [OF post_webhook_completed [OF post]] old
  obtain n e where n: "cs_durationDays session = Some n"
    and e: "addDays z now n = Some e"
    and rows: "userPlans d' =
                  map (\<lambda>r. if up_userId r = cs_userId session \<and> up_planId r = cs_planId session
                           then r\<lparr>up_isActive := True, up_expiresAt := Some e,
                                  up_lettersUsed := 0, up_audioMinutesUsed := 0,
                                  up_startedAt := now\<rparr>
                           else r)
                      (userPlans d)"
    and ptr: "map_option p_currentPlanId (findProfile d' (cs_userId session))
             = Some (Some (cs_planId session))"
    by auto
  let ?update = "\<lambda>r. r\<lparr>up_isActive := True, up_expiresAt := Some e,
                        up_lettersUsed := 0, up_audioMinutesUsed := 0, up_startedAt := now\<rparr>"
  have "find (\<lambda>r. up_userId r = cs_userId session \<and> up_planId r = cs_planId session)
          (userPlans d') = Some (?update old)"
    unfolding rows by (rule userPlan_upsert_existing(2) [OF old]) simp
  with n e ptr
  show "\<exists>sub n.
              find (\<lambda>r. up_userId r = cs_userId session \<and> up_planId r = cs_planId session)
                (userPlans d') = Some sub \<and>
              cs_durationDays session = Some n \<and>
              up_lettersUsed sub = 0 \<and> up_audioMinutesUsed sub = 0 \<and> up_isActive sub \<and>
              up_expiresAt sub = addDays z now n \<and> up_expiresAt sub \<noteq> None \<and>
              map_option p_currentPlanId (findProfile d' (cs_userId session))
                = Some (Some (cs_planId session)) \<and>
              up_startedAt sub = now"
    by simp
qed

text \<open>
  The second dreamer's subscription to the first plan, started at 500 with seven letters
  used: a manual re-subscribe at 9000 zeroes the letters and moves the expiry but leaves
  \<open>startedAt\<close> at 500; the webhook's handler, handed the session's event at 2000, sets
  \<open>startedAt\<close> to 2000.
\<close>

theorem C7_resubscribe_window_start_witness:
  "find (\<lambda>r. up_userId r = ''dreamer2'' \<and> up_planId r = ''plan1'') (userPlans ex_paid_used)
     = Some (ex_s4 500 2592000500 7)
   \<and> post_subscribe ex_utc ex_paid_used 9000 ''up9'' ''pay9'' ''dreamer2'' (Some ''plan1'') =
       (Json 200 (ex_s4 500 2592009000 0, ex_plan), ex_resubscribed)
   \<and> up_startedAt (ex_s4 500 2592009000 0) = 500
   \<and> up_lettersUsed (ex_s4 500 2592009000 0) = 0
   \<and> post_webhook ex_utc ex_paid_used 2000 ''pay2'' ''up2'' True (Some ''sig'')
       (Some (CheckoutSessionCompleted ex_session)) = (Json 200 Received, ex_paid_twice)
   \<and> find (\<lambda>r. up_userId r = ''dreamer2'' \<and> up_planId r = ''plan1'') (userPlans ex_paid_twice)
       = Some (ex_s4 2000 2592002000 0)"
proof -
  have old: "find (\<lambda>r. up_userId r = ''dreamer2'' \<and> up_planId r = ''plan1'') (userPlans ex_paid_used)
               = Some (ex_s4 500 2592000500 7)"
    by (simp add: ex_paid_used_def ex_paid_def ex_sub_def ex_s4_def)
  have new: "find (\<lambda>r. up_userId r = ''dreamer2'' \<and> up_planId r = ''plan1'') (userPlans ex_paid_twice)
               = Some (ex_s4 2000 2592002000 0)"
    by (simp add: ex_paid_twice_def ex_paid_def ex_sub_def ex_s4_def)
  from C7_resubscribe_window_start
         [of "''dreamer2''" "''plan1''" ex_paid_used "ex_s4 500 2592000500 7" ex_utc 9000 "''up9''"
             "''pay9''" "ex_s4 500 2592009000 0" ex_plan ex_resubscribed]
       old ex_resubscribe
  have "up_startedAt (ex_s4 500 2592009000 0) = up_startedAt (ex_s4 500 2592000500 7)"
    and "up_lettersUsed (ex_s4 500 2592009000 0) = 0"
    by blast+
  then have kept: "up_startedAt (ex_s4 500 2592009000 0) = 500"
    "up_lettersUsed (ex_s4 500 2592009000 0) = 0"
    by (simp_all add: ex_s4_def)
  from old ex_resubscribe kept ex_second_delivery new show ?thesis by simp
qed

section \<open>The webhook route as the server mounts it\<close>

lemma webhook_route_rejects:
  "webhook_route z d now newPaymentId newUserPlanId stripeConfigured signedEvent sig raw bodyError =
     (ErrorJson (case bodyError of
                   Some status \<Rightarrow> status
                 | None \<Rightarrow> if stripeConfigured then 400 else 503) None, d)"
  by (simp add: webhook_route_def express_json_def constructEvent_def post_webhook_def
      split: option.splits)

text \<open>
  Claim C1 says that after the same \<open>checkout.session.completed\<close> event has been
  delivered twice, exactly one Payment row carries the session's reference and the
  usage counters have been reset once. On this server no delivery gets as far as the
  event: the JSON body parser runs in front of the route, so \<open>constructEvent\<close> is
  handed an object instead of the payload that was signed, and throws. Whatever the
  body, the signature header and the library's verdict on the raw payload, the route
  answers an error (the parser's status for a body it rejects, 503 without a Stripe
  client, 400 otherwise) and leaves the database as it was, and so does a second
  delivery after it: the route never writes a Payment row and never activates a
  subscription.
\<close>

theorem C1_webhook_delivery_rejected:
  "webhook_route z d now newPaymentId newUserPlanId stripeConfigured signedEvent sig raw bodyError =
     (ErrorJson (case bodyError of
                   Some status \<Rightarrow> status
                 | None \<Rightarrow> if stripeConfigured then 400 else 503) None, d)
   \<and> webhook_route z
        (snd (webhook_route z d now newPaymentId newUserPlanId stripeConfigured signedEvent sig
                raw bodyError))
        later newPaymentId2 newUserPlanId2 stripeConfigured signedEvent sig raw bodyError =
       (ErrorJson (case bodyError of
                     Some status \<Rightarrow> status
                   | None \<Rightarrow> if stripeConfigured then 400 else 503) None, d)"
  by (simp add: webhook_route_rejects)

text \<open>
  The session \<open>cs_123\<close>, delivered at 500 and again at 2000 with a payload and a
  signature header that the library accepts: both deliveries are answered 400 and the
  database, which holds no payment, is as before. Handed the event itself, the handler
  would have written the payment row and activated the subscription.
\<close>

theorem C1_webhook_delivery_rejected_witness:
  "ex_signed ''payload'' ''t=1,v1=5f'' = Some (CheckoutSessionCompleted ex_session)
   \<and> webhook_route ex_utc ex_db 500 ''pay1'' ''up1'' True ex_signed (Some ''t=1,v1=5f'')
         ''payload'' None = (ErrorJson 400 None, ex_db)
   \<and> webhook_route ex_utc
         (snd (webhook_route ex_utc ex_db 500 ''pay1'' ''up1'' True ex_signed (Some ''t=1,v1=5f'')
                 ''payload'' None))
         2000 ''pay2'' ''up2'' True ex_signed (Some ''t=1,v1=5f'') ''payload'' None
       = (ErrorJson 400 None, ex_db)
   \<and> payments ex_db = []
   \<and> post_webhook ex_utc ex_db 500 ''pay1'' ''up1'' True (Some ''t=1,v1=5f'')
         (ex_signed ''payload'' ''t=1,v1=5f'') = (Json 200 Received, ex_paid_once)
   \<and> payments ex_paid_once = [ex_stripe_payment ''pay1'' 500]"
proof -
  have a: "ex_signed ''payload'' ''t=1,v1=5f'' = Some (CheckoutSessionCompleted ex_session)"
    by (simp add: ex_signed_def)
  have b: "payments ex_db = []" "payments ex_paid_once = [ex_stripe_payment ''pay1'' 500]"
    by (simp_all add: ex_db_def ex_paid_once_def ex_paid_def)
  have c: "post_webhook ex_utc ex_db 500 ''pay1'' ''up1'' True (Some ''t=1,v1=5f'')
         (ex_signed ''payload'' ''t=1,v1=5f'') = (Json 200 Received, ex_paid_once)"
    by (simp add: a ex_webhook_defs ex_paid_once_def)
  note d = C1_webhook_delivery_rejected
         [of ex_utc ex_db 500 "''pay1''" "''up1''" True ex_signed "Some ''t=1,v1=5f''"
             "''payload''" None 2000 "''pay2''" "''up2''", unfolded option.case if_True]
  from a b c d show ?thesis by blast
qed

section \<open>Registration and the trial plan\<close>

lemma find_None_weaker:
  assumes "find P xs = None" "\<And>x. Q x \<Longrightarrow> P x"
  shows "find Q xs = None"
  using assms by (auto simp add: find_None_iff)

lemma post_register_dreamer:
  assumes "rr_email rq = Some email" "email \<noteq> []" "assigned (rr_password rq)"
      and "rr_fullName rq = Some fullName" "fullName \<noteq> []"
      and "rr_role rq = None \<or> rr_role rq = Some ''dreamer''"
      and u: "find (\<lambda>u. u_id u = newUserId \<or> u_email u = email) (users d) = None"
  shows "post_register z d now newUserId newUserPlanId hashedPassword rq =
          (case register_tx z d now newUserId newUserPlanId email hashedPassword fullName Dreamer of
             Inl e \<Rightarrow> (ErrorJson 500 None, d)
           | Inr (createdUser, createdProfile, d') \<Rightarrow>
               (Json 201 (createdUser, createdProfile), d'))"
proof -
  have free: "find (\<lambda>u. u_email u = email) (users d) = None"
    by (rule find_None_weaker [OF u]) simp
  from assms(1-6)
  have valid: "assigned (rr_email rq) \<and> assigned (rr_password rq) \<and> assigned (rr_fullName rq)"
    and fields: "the (rr_email rq) = email" "the (rr_fullName rq) = fullName"
    and role: "(case rr_role rq of None \<Rightarrow> ''dreamer'' | Some r \<Rightarrow> r) = ''dreamer''"
    by (auto simp add: assigned_def)
  show ?thesis
    using valid fields role free by (simp add: post_register_def Let_def)
qed

lemma register_tx_trial:
  assumes u: "find (\<lambda>u. u_id u = newUserId \<or> u_email u = email) (users d) = None"
      and p: "find (\<lambda>p. p_id p = newUserId \<or> p_email p = email) (profiles d) = None"
      and s: "find (\<lambda>r. up_id r = newUserPlanId \<or> up_userId r = newUserId) (userPlans d) = None"
      and t: "first_desc pl_createdAt (filter (\<lambda>p. pl_isTrial p \<and> pl_isActive p) (plans d))
                = Some tp"
      and n: "pl_trialDurationDays tp = Some days" "days \<noteq> 0"
  shows "register_tx z d now newUserId newUserPlanId email hashedPassword fullName Dreamer =
           (case addDays z now days of
              None \<Rightarrow> Inl PrismaError
            | Some e \<Rightarrow>
                Inr (\<lparr>u_id = newUserId, u_email = email, u_password = hashedPassword\<rparr>,
                     \<lparr>p_id = newUserId, p_email = email, p_fullName = fullName, p_role = Dreamer,
                      p_currentPlanId = None\<rparr>,
                     d\<lparr>users := users d @ [\<lparr>u_id = newUserId, u_email = email,
                                            u_password = hashedPassword\<rparr>],
                       profiles := profiles d @
                         [\<lparr>p_id = newUserId, p_email = email, p_fullName = fullName,
                           p_role = Dreamer, p_currentPlanId = None\<rparr>],
                       userPlans := userPlans d @
                         [\<lparr>up_id = newUserPlanId, up_userId = newUserId,
                           up_planId = pl_id tp, up_startedAt = now,
                           up_expiresAt = Some e, up_isActive = True,
                           up_lettersUsed = 0, up_audioMinutesUsed = 0\<rparr>]\<rparr>))"
proof -
  have s': "find (\<lambda>r. up_id r = newUserPlanId \<or> (up_userId r = newUserId \<and> up_planId r = x))
              (userPlans d) = None" for x
    by (rule find_None_weaker [OF s]) auto
  show ?thesis
    by (simp add: register_tx_def Let_def u p s' t n split: option.splits)
qed




text \<open>
  A trial of so many days that the expiry is no valid date: the registration is
  answered 500 and nothing is written.
\<close>

lemma post_register_invalid_expiry:
  assumes "rr_email rq = Some email" "email \<noteq> []" "assigned (rr_password rq)"
      and "rr_fullName rq = Some fullName" "fullName \<noteq> []"
      and "rr_role rq = None \<or> rr_role rq = Some ''dreamer''"
      and "find (\<lambda>u. u_id u = newUserId \<or> u_email u = email) (users d) = None"
      and "find (\<lambda>p. p_id p = newUserId \<or> p_email p = email) (profiles d) = None"
      and "find (\<lambda>r. up_id r = newUserPlanId \<or> up_userId r = newUserId) (userPlans d) = None"
      and "first_desc pl_createdAt (filter (\<lambda>p. pl_isTrial p \<and> pl_isActive p) (plans d))
             = Some tp"
      and "pl_trialDurationDays tp = Some days" "days \<noteq> 0"
      and "addDays z now days = None"
  shows "post_register z d now newUserId newUserPlanId hashedPassword rq = (ErrorJson 500 None, d)"
  by (simp add: post_register_dreamer [OF assms(1-7)] register_tx_trial [OF assms(7-12)]
      assms(13))

lemmas ex_register_defs =
  post_register_def register_tx_def assigned_def Let_def addDays_def time_clip_def
  ex_registration_def ex_new_user_def ex_new_profile_def ex_trial_sub_def
  ex_db_def ex_users_def ex_user_def ex_profile_def ex_sub_def
  ex_plan_def ex_plan2_def ex_trial_week_def

lemma ex_register_with_trial:
  "post_register ex_utc ex_db_trial 1000 ''u9'' ''up9'' ''$2a$10$new'' (ex_registration None) =
     (Json 201 (ex_new_user, ex_new_profile Dreamer),
      ex_db_trial\<lparr>users := users ex_db_trial @ [ex_new_user],
                  profiles := profiles ex_db_trial @ [ex_new_profile Dreamer],
                  userPlans := userPlans ex_db_trial @ [ex_trial_sub]\<rparr>)"
  by (simp add: ex_register_defs ex_db_trial_def ex_utc_def)





end
